theory Spec2Isabelle
  imports Main "HOL-Library.Product_Lexorder"
begin

section \<open>JSON values and the JavaScript coercions the canon engine relies on\<close>

text \<open>
  Payloads (\<^verbatim>\<open>Record<string, unknown>\<close>, JSONB columns, the parsed reply of the
  text-generation collaborator) are JSON values. Numbers are kept to the integers.
  A JavaScript object is an association list with one binding per key.
\<close>

datatype jval =
    JNull
  | JBool bool
  | JNum int
  | JStr string
  | JArr "jval list"
  | JObj "(string \<times> jval) list"

type_synonym jobject = "(string \<times> jval) list"

text \<open>\<^verbatim>\<open>if (v)\<close>, \<^verbatim>\<open>!v\<close> and \<^verbatim>\<open>v || w\<close> on a JSON value.\<close>

fun truthy :: "jval \<Rightarrow> bool" where
  "truthy JNull = False"
| "truthy (JBool b) = b"
| "truthy (JNum n) = (n \<noteq> 0)"
| "truthy (JStr s) = (s \<noteq> [])"
| "truthy (JArr xs) = True"
| "truthy (JObj kvs) = True"

text \<open>The same coercions on optional arguments: \<open>None\<close> is \<^verbatim>\<open>undefined\<close>.\<close>

definition truthy_str :: "string option \<Rightarrow> bool" where
  "truthy_str s = (case s of None \<Rightarrow> False | Some t \<Rightarrow> t \<noteq> [])"

definition truthy_val :: "jval option \<Rightarrow> bool" where
  "truthy_val v = (case v of None \<Rightarrow> False | Some w \<Rightarrow> truthy w)"

definition str_or :: "string option \<Rightarrow> string \<Rightarrow> string" where
  "str_or s d = (if truthy_str s then the s else d)"

definition val_or :: "jval option \<Rightarrow> jval \<Rightarrow> jval" where
  "val_or v d = (if truthy_val v then the v else d)"

text \<open>\<^verbatim>\<open>userId || null\<close>.\<close>

definition str_or_null :: "string option \<Rightarrow> string option" where
  "str_or_null s = (if truthy_str s then s else None)"

text \<open>
  \<^verbatim>\<open>a ?? b\<close> on a value that may be \<^verbatim>\<open>undefined\<close> (\<open>None\<close>), \<^verbatim>\<open>null\<close>
  (\<open>Some None\<close>) or a string: only a string is kept.
\<close>

definition nullish_or :: "string option option \<Rightarrow> string option \<Rightarrow> string option" where
  "nullish_or a b = (case a of Some (Some s) \<Rightarrow> Some s | _ \<Rightarrow> b)"

text \<open>Decimal rendering of numbers, as template strings and index keys need it.\<close>

definition digit_char :: "nat \<Rightarrow> char" where
  "digit_char d = char_of (48 + d)"

fun show_nat :: "nat \<Rightarrow> string" where
  "show_nat n = (if n < 10 then [digit_char n] else show_nat (n div 10) @ [digit_char (n mod 10)])"

declare show_nat.simps [simp del]

definition show_int :: "int \<Rightarrow> string" where
  "show_int i = (if i < 0 then CHR ''-'' # show_nat (nat (- i)) else show_nat (nat i))"

text \<open>Object spread \<^verbatim>\<open>{...a, ...b}\<close>: a later binding of a key replaces the earlier one.\<close>

fun obj_set :: "string \<Rightarrow> jval \<Rightarrow> jobject \<Rightarrow> jobject" where
  "obj_set k v [] = [(k, v)]"
| "obj_set k v ((k', v') # kvs) = (if k' = k then (k, v) # kvs else (k', v') # obj_set k v kvs)"

definition obj_merge :: "jobject \<Rightarrow> jobject \<Rightarrow> jobject" where
  "obj_merge a b = fold (\<lambda>(k, v). obj_set k v) b a"

text \<open>
  The own enumerable properties a spread \<^verbatim>\<open>...v\<close> copies: the bindings of an object,
  the indexed elements of an array or of a string, nothing for the other values.
\<close>

definition indexed :: "jval list \<Rightarrow> jobject" where
  "indexed xs = map (\<lambda>(i, x). (show_nat i, x)) (enumerate 0 xs)"

fun spread :: "jval \<Rightarrow> jobject" where
  "spread (JObj kvs) = kvs"
| "spread (JArr xs) = indexed xs"
| "spread (JStr s) = indexed (map (\<lambda>c. JStr [c]) s)"
| "spread v = []"

definition str_col :: "string \<Rightarrow> jobject \<Rightarrow> string option" where
  "str_col k r = (case map_of r k of Some (JStr s) \<Rightarrow> Some s | _ \<Rightarrow> None)"

section \<open>The persistent store\<close>

text \<open>
  The tables of the initial schema migration that the canon manager reads and writes,
  with the columns it touches. Identifiers (UUIDs) and timestamps are strings; the
  \<^verbatim>\<open>data\<close> column always holds a value. A statement fails exactly when it breaks a
  constraint of the schema (a key, a foreign key, a unique index, the range of an
  INTEGER column), and then it changes nothing; statements run one after the other.
\<close>

datatype entity_type =
  Character | Location | Rule | Event | Theme | Reference | Item | Relationship

datatype lock_status = Unlocked | Soft_locked | Hard_locked

record canon_entry =
  ce_id :: string
  ce_project_id :: string
  ce_entity_type :: entity_type
  ce_name :: string
  ce_slug :: string
  ce_description :: "string option"
  ce_data :: jval
  ce_lock_status :: lock_status
  ce_locked_at :: "string option"
  ce_locked_by :: "string option"
  ce_version :: int
  ce_timeline_id :: "string option"
  ce_is_active :: bool

record canon_version =
  cv_canon_entry_id :: string
  cv_version :: int
  cv_name :: string
  cv_description :: "string option"
  cv_data :: jval
  cv_changed_by :: "string option"
  cv_change_reason :: string
  cv_change_type :: string

record timeline =
  tl_id :: string
  tl_project_id :: string
  tl_name :: string
  tl_description :: string
  tl_is_main :: bool
  tl_parent_timeline_id :: "string option"
  tl_fork_point_event_id :: "string option"

text \<open>
  The five type-specific tables. A row of one of them is an object, column name to
  value: its columns \<^verbatim>\<open>id\<close>, \<^verbatim>\<open>canon_entry_id\<close> and \<^verbatim>\<open>project_id\<close> are read
  with \<^const>\<open>str_col\<close>.
\<close>

datatype entity_table =
  Canon_characters | Canon_locations | Canon_rules | Canon_events | Canon_themes

record store =
  projects :: "string list"
  users :: "string list"
  canon_entries :: "canon_entry list"
  canon_versions :: "canon_version list"
  timelines :: "timeline list"
  entity_rows :: "entity_table \<Rightarrow> jobject list"

datatype db_error =
    Unique_violation
  | Foreign_key_violation
  | Not_null_violation
  | Out_of_range
  | Rejected_row
  | Not_single_row

text \<open>\<^verbatim>\<open>.single()\<close>: exactly one row, or an error.\<close>

definition single :: "'a list \<Rightarrow> db_error + 'a" where
  "single rows = (case rows of [r] \<Rightarrow> Inr r | _ \<Rightarrow> Inl Not_single_row)"

definition select_entry :: "store \<Rightarrow> string \<Rightarrow> db_error + canon_entry" where
  "select_entry db i = single (filter (\<lambda>e. ce_id e = i) (canon_entries db))"

definition int4 :: "int \<Rightarrow> bool" where
  "int4 v = (- 2147483648 \<le> v \<and> v \<le> 2147483647)"

text \<open>
  The partial unique index \<^verbatim>\<open>idx_canon_project_slug\<close> on
  \<^verbatim>\<open>(project_id, slug) WHERE is_active = TRUE\<close>.
\<close>

definition slug_taken :: "canon_entry list \<Rightarrow> canon_entry \<Rightarrow> bool" where
  "slug_taken rows r =
     list_ex (\<lambda>r'. ce_is_active r' \<and> ce_project_id r' = ce_project_id r \<and> ce_slug r' = ce_slug r) rows"

text \<open>
  The constraints a row of \<^verbatim>\<open>canon_entries\<close> is checked against when it is written,
  \<open>others\<close> being the other rows of the table: primary key, the foreign keys to projects
  and users, the slug index and the range of the INTEGER column.
\<close>

definition entry_violation :: "store \<Rightarrow> canon_entry list \<Rightarrow> canon_entry \<Rightarrow> db_error option" where
  "entry_violation db others r =
     (if ce_id r \<in> set (map ce_id others) then Some Unique_violation
      else if ce_project_id r \<notin> set (projects db) then Some Foreign_key_violation
      else if (case ce_locked_by r of None \<Rightarrow> False | Some u \<Rightarrow> u \<notin> set (users db))
        then Some Foreign_key_violation
      else if ce_is_active r \<and> slug_taken others r then Some Unique_violation
      else if \<not> int4 (ce_version r) then Some Out_of_range
      else None)"

definition insert_entry :: "store \<Rightarrow> canon_entry \<Rightarrow> (db_error + canon_entry) \<times> store" where
  "insert_entry db r =
     (case entry_violation db (canon_entries db) r of
        Some e \<Rightarrow> (Inl e, db)
      | None \<Rightarrow> (Inr r, db\<lparr>canon_entries := canon_entries db @ [r]\<rparr>))"

text \<open>
  \<^verbatim>\<open>CanonEntryUpdate\<close>: the object handed to \<^verbatim>\<open>.update(...)\<close>; a column that is
  not set keeps its value. \<^verbatim>\<open>description\<close>, \<^verbatim>\<open>locked_at\<close> and \<^verbatim>\<open>locked_by\<close>
  can be set to null.
\<close>

record canon_entry_update =
  upd_name :: "string option"
  upd_slug :: "string option"
  upd_description :: "string option option"
  upd_data :: "jval option"
  upd_version :: "int option"
  upd_lock_status :: "lock_status option"
  upd_locked_at :: "string option option"
  upd_locked_by :: "string option option"
  upd_is_active :: "bool option"

definition no_update :: canon_entry_update where
  "no_update = \<lparr>upd_name = None, upd_slug = None, upd_description = None, upd_data = None,
     upd_version = None, upd_lock_status = None, upd_locked_at = None, upd_locked_by = None,
     upd_is_active = None\<rparr>"

definition apply_update :: "canon_entry_update \<Rightarrow> canon_entry \<Rightarrow> canon_entry" where
  "apply_update u e =
     e\<lparr>ce_name := (case upd_name u of None \<Rightarrow> ce_name e | Some x \<Rightarrow> x),
       ce_slug := (case upd_slug u of None \<Rightarrow> ce_slug e | Some x \<Rightarrow> x),
       ce_description := (case upd_description u of None \<Rightarrow> ce_description e | Some x \<Rightarrow> x),
       ce_data := (case upd_data u of None \<Rightarrow> ce_data e | Some x \<Rightarrow> x),
       ce_version := (case upd_version u of None \<Rightarrow> ce_version e | Some x \<Rightarrow> x),
       ce_lock_status := (case upd_lock_status u of None \<Rightarrow> ce_lock_status e | Some x \<Rightarrow> x),
       ce_locked_at := (case upd_locked_at u of None \<Rightarrow> ce_locked_at e | Some x \<Rightarrow> x),
       ce_locked_by := (case upd_locked_by u of None \<Rightarrow> ce_locked_by e | Some x \<Rightarrow> x),
       ce_is_active := (case upd_is_active u of None \<Rightarrow> ce_is_active e | Some x \<Rightarrow> x)\<rparr>"

text \<open>
  \<^verbatim>\<open>.from('canon_entries').update(u).eq('id', i)\<close>. Matching no row is not an error.
  A constraint that the new row breaks rejects the statement and leaves the table as
  it was.
\<close>

definition update_entry_row ::
  "store \<Rightarrow> string \<Rightarrow> canon_entry_update \<Rightarrow> db_error option \<times> store" where
  "update_entry_row db i u =
     (case filter (\<lambda>e. ce_id e = i) (canon_entries db) of
        [] \<Rightarrow> (None, db)
      | r # rs \<Rightarrow>
          (case entry_violation db (filter (\<lambda>e. ce_id e \<noteq> i) (canon_entries db)) (apply_update u r) of
             Some e \<Rightarrow> (Some e, db)
           | None \<Rightarrow>
               (None, db\<lparr>canon_entries :=
                  map (\<lambda>e. if ce_id e = i then apply_update u e else e) (canon_entries db)\<rparr>)))"

text \<open>
  \<^verbatim>\<open>.from('canon_versions').insert(v)\<close>: the row references an entry and, when
  \<^verbatim>\<open>changed_by\<close> is set, a user.
\<close>

definition insert_version :: "store \<Rightarrow> canon_version \<Rightarrow> db_error option \<times> store" where
  "insert_version db v =
     (if cv_canon_entry_id v \<notin> set (map ce_id (canon_entries db)) then (Some Foreign_key_violation, db)
      else if (case cv_changed_by v of None \<Rightarrow> False | Some u \<Rightarrow> u \<notin> set (users db))
        then (Some Foreign_key_violation, db)
      else if \<not> int4 (cv_version v) then (Some Out_of_range, db)
      else (None, db\<lparr>canon_versions := canon_versions db @ [v]\<rparr>))"

text \<open>
  \<^verbatim>\<open>.from('timelines').insert(t)\<close>: primary key, the foreign keys to the project
  and to the parent timeline, and the unique index \<^verbatim>\<open>idx_timelines_main\<close> on
  \<^verbatim>\<open>(project_id) WHERE is_main = TRUE\<close>.
\<close>

definition insert_timeline :: "store \<Rightarrow> timeline \<Rightarrow> (db_error + timeline) \<times> store" where
  "insert_timeline db t =
     (if tl_id t \<in> set (map tl_id (timelines db)) then (Inl Unique_violation, db)
      else if tl_project_id t \<notin> set (projects db) then (Inl Foreign_key_violation, db)
      else if (case tl_parent_timeline_id t of None \<Rightarrow> False
               | Some p \<Rightarrow> p \<notin> set (map tl_id (timelines db)))
        then (Inl Foreign_key_violation, db)
      else if tl_is_main t \<and>
              list_ex (\<lambda>t'. tl_is_main t' \<and> tl_project_id t' = tl_project_id t) (timelines db)
        then (Inl Unique_violation, db)
      else (Inr t, db\<lparr>timelines := timelines db @ [t]\<rparr>))"

text \<open>
  The type-specific tables. What the manager hands them is an untyped object, so whether
  PostgreSQL takes a row (every key a column of the table, every value fit for the
  column's type, \<^verbatim>\<open>description\<close> of a rule not null) is the parameter \<open>accepts\<close>.
  Checked here are the key columns: \<^verbatim>\<open>id\<close>, \<^verbatim>\<open>canon_entry_id\<close> and
  \<^verbatim>\<open>project_id\<close> are UUID columns and take a string only, \<^verbatim>\<open>name\<close> is a NOT NULL
  text column and takes any value but null.
\<close>

definition null_col :: "string \<Rightarrow> jobject \<Rightarrow> bool" where
  "null_col k r = (case map_of r k of None \<Rightarrow> True | Some JNull \<Rightarrow> True | Some v \<Rightarrow> False)"

definition row_violation ::
  "(entity_table \<Rightarrow> jobject \<Rightarrow> bool) \<Rightarrow> store \<Rightarrow> entity_table \<Rightarrow> jobject \<Rightarrow> db_error option" where
  "row_violation accepts db t r =
     (case (str_col ''id'' r, str_col ''canon_entry_id'' r, str_col ''project_id'' r) of
        (Some i, Some c, Some p) \<Rightarrow>
          (if null_col ''name'' r then Some Not_null_violation
           else if c \<notin> set (map ce_id (canon_entries db)) then Some Foreign_key_violation
           else if p \<notin> set (projects db) then Some Foreign_key_violation
           else if \<not> accepts t r then Some Rejected_row
           else None)
      | _ \<Rightarrow> Some Not_null_violation)"

text \<open>
  The column defaults of the migration (timestamps apart). An inserted row is kept as
  the object that was sent, with the default of every column the object does not name;
  a column with neither reads back as null. Values are kept as they were sent (the text
  that PostgreSQL makes of a number given for a text column is not computed).
\<close>

definition column_defaults :: "entity_table \<Rightarrow> jobject" where
  "column_defaults t =
     (case t of
        Canon_characters \<Rightarrow>
          [(''aliases'', JArr []), (''strengths'', JArr []), (''weaknesses'', JArr []),
           (''relationships'', JArr []), (''catchphrases'', JArr []), (''reference_images'', JArr [])]
      | Canon_locations \<Rightarrow>
          [(''sensory_details'', JObj [(''sight'', JNull), (''sound'', JNull), (''smell'', JNull),
                                        (''touch'', JNull)]),
           (''reference_images'', JArr [])]
      | Canon_rules \<Rightarrow>
          [(''constraints'', JArr []), (''enables'', JArr []), (''exceptions'', JArr []),
           (''priority'', JNum 5)]
      | Canon_events \<Rightarrow>
          [(''consequences'', JArr []), (''affected_character_ids'', JArr []),
           (''affected_location_ids'', JArr [])]
      | Canon_themes \<Rightarrow>
          [(''symbols'', JArr []), (''motifs'', JArr []), (''related_character_ids'', JArr [])])"

definition with_defaults :: "entity_table \<Rightarrow> jobject \<Rightarrow> jobject" where
  "with_defaults t r = r @ filter (\<lambda>kv. fst kv \<notin> set (map fst r)) (column_defaults t)"

definition insert_row ::
  "(entity_table \<Rightarrow> jobject \<Rightarrow> bool) \<Rightarrow> store \<Rightarrow> entity_table \<Rightarrow> jobject \<Rightarrow> (db_error + jobject) \<times> store" where
  "insert_row accepts db t r =
     (case row_violation accepts db t r of
        Some e \<Rightarrow> (Inl e, db)
      | None \<Rightarrow>
          (if str_col ''id'' r \<in> set (map (str_col ''id'') (entity_rows db t)) then (Inl Unique_violation, db)
           else (Inr (with_defaults t r),
                 db\<lparr>entity_rows := (entity_rows db)(t := entity_rows db t @ [with_defaults t r])\<rparr>)))"

text \<open>\<^verbatim>\<open>.from(t).update(u).eq('canon_entry_id', c)\<close>.\<close>

definition update_rows ::
  "(entity_table \<Rightarrow> jobject \<Rightarrow> bool) \<Rightarrow> store \<Rightarrow> entity_table \<Rightarrow> string \<Rightarrow> jobject \<Rightarrow> db_error option \<times> store" where
  "update_rows accepts db t c u =
     (let hit = (\<lambda>r. str_col ''canon_entry_id'' r = Some c);
          rows' = map (\<lambda>r. if hit r then obj_merge r u else r) (entity_rows db t)
      in case List.find (\<lambda>r. row_violation accepts db t r \<noteq> None) (map (\<lambda>r. obj_merge r u) (filter hit (entity_rows db t))) of
           Some r \<Rightarrow> (row_violation accepts db t r, db)
         | None \<Rightarrow>
             (if \<not> distinct (map (str_col ''id'') rows') then (Some Unique_violation, db)
              else (None, db\<lparr>entity_rows := (entity_rows db)(t := rows')\<rparr>)))"

text \<open>
  \<^verbatim>\<open>.from('canon_entries').delete().eq('id', i)\<close>. The version rows and the
  type-specific rows of the entry go with it (\<^verbatim>\<open>ON DELETE CASCADE\<close>). Rows of other
  tables that point at a type-specific row are outside this store.
\<close>

definition delete_entry_row :: "store \<Rightarrow> string \<Rightarrow> db_error option \<times> store" where
  "delete_entry_row db i =
     (if i \<notin> set (map ce_id (canon_entries db)) then (None, db)
      else (None, db\<lparr>canon_entries := filter (\<lambda>e. ce_id e \<noteq> i) (canon_entries db),
                      canon_versions := filter (\<lambda>v. cv_canon_entry_id v \<noteq> i) (canon_versions db),
                      entity_rows := (\<lambda>t. filter (\<lambda>r. str_col ''canon_entry_id'' r \<noteq> Some i) (entity_rows db t))\<rparr>))"

section \<open>The canon manager\<close>

text \<open>
  Each method of \<^verbatim>\<open>CanonManager\<close> takes the store and returns it with its result.
  The methods report failure as \<^verbatim>\<open>false\<close> or \<^verbatim>\<open>null\<close>; the model names the
  return site, so \<open>Inl f\<close> is the \<^verbatim>\<open>false\<close> (or \<^verbatim>\<open>null\<close>) returned at the place
  \<open>f\<close> and \<open>Inr\<close> is \<^verbatim>\<open>true\<close> (or the object returned).
  \<open>slugify\<close> (from \<^verbatim>\<open>@/lib/utils\<close>) is a parameter; identifiers that
  \<^verbatim>\<open>generateId()\<close> or the database draw, and the clock, are arguments.
\<close>

datatype failure =
    Not_found
  | Locked
  | Store_error db_error
  | Missing_data
  | No_type_record
  | Unknown_resolution

definition succeeded :: "failure + 'a \<Rightarrow> bool" where
  "succeeded r = (case r of Inl f \<Rightarrow> False | Inr x \<Rightarrow> True)"

definition table_of :: "entity_type \<Rightarrow> entity_table option" where
  "table_of k =
     (case k of Character \<Rightarrow> Some Canon_characters | Location \<Rightarrow> Some Canon_locations
      | Rule \<Rightarrow> Some Canon_rules | Event \<Rightarrow> Some Canon_events | Theme \<Rightarrow> Some Canon_themes
      | _ \<Rightarrow> None)"

text \<open>\<^verbatim>\<open>createVersion\<close>: the result of the insert is not looked at.\<close>

definition createVersion ::
  "store \<Rightarrow> string \<Rightarrow> int \<Rightarrow> string \<Rightarrow> string option \<Rightarrow> jval \<Rightarrow> string option \<Rightarrow> string \<Rightarrow> store" where
  "createVersion db canonEntryId version name description data userId reason =
     snd (insert_version db
       \<lparr>cv_canon_entry_id = canonEntryId, cv_version = version, cv_name = name,
        cv_description = description, cv_data = data, cv_changed_by = userId,
        cv_change_reason = reason, cv_change_type = ''manual''\<rparr>)"

definition updateTypeSpecificRecord ::
  "(entity_table \<Rightarrow> jobject \<Rightarrow> bool) \<Rightarrow> store \<Rightarrow> entity_type \<Rightarrow> string \<Rightarrow> string \<Rightarrow> jval \<Rightarrow> bool \<times> store" where
  "updateTypeSpecificRecord accepts db entityType canonEntryId name data =
     (let updates = obj_merge [(''name'', JStr name)] (spread data)
      in case table_of entityType of
           None \<Rightarrow> (False, db)
         | Some t \<Rightarrow>
             (case update_rows accepts db t canonEntryId updates of
                (err, db') \<Rightarrow> (err = None, db')))"

record entry_updates =
  u_name :: "string option"
  u_description :: "string option option"
  u_entityData :: "jval option"

text \<open>The \<^verbatim>\<open>entryUpdates\<close> object that \<^verbatim>\<open>updateEntry\<close> builds from its argument.\<close>

definition entryUpdates :: "(string \<Rightarrow> string) \<Rightarrow> canon_entry \<Rightarrow> entry_updates \<Rightarrow> canon_entry_update" where
  "entryUpdates slugify currentEntry updates =
     no_update
       \<lparr>upd_name := (if truthy_str (u_name updates) then u_name updates else None),
        upd_slug := (if truthy_str (u_name updates) then Some (slugify (the (u_name updates))) else None),
        upd_description := u_description updates,
        upd_data := (if truthy_val (u_entityData updates) then u_entityData updates else None),
        upd_version := Some (ce_version currentEntry + 1)\<rparr>"

definition updateEntry ::
  "(string \<Rightarrow> string) \<Rightarrow> (entity_table \<Rightarrow> jobject \<Rightarrow> bool) \<Rightarrow> store \<Rightarrow> string \<Rightarrow> entry_updates \<Rightarrow>
   string option \<Rightarrow> string option \<Rightarrow> (failure + unit) \<times> store" where
  "updateEntry slugify accepts db entryId updates userId reason =
     (case select_entry db entryId of
        Inl fetchError \<Rightarrow> (Inl Not_found, db)
      | Inr currentEntry \<Rightarrow>
          (if ce_lock_status currentEntry = Hard_locked then (Inl Locked, db)
           else
             (case update_entry_row db entryId (entryUpdates slugify currentEntry updates) of
                (Some updateError, db1) \<Rightarrow> (Inl (Store_error updateError), db1)
              | (None, db1) \<Rightarrow>
                  (Inr (),
                   createVersion
                     (if truthy_val (u_entityData updates)
                      then snd (updateTypeSpecificRecord accepts db1 (ce_entity_type currentEntry) entryId
                             (str_or (u_name updates) (ce_name currentEntry)) (the (u_entityData updates)))
                      else db1)
                     entryId (ce_version currentEntry + 1)
                     (str_or (u_name updates) (ce_name currentEntry))
                     (nullish_or (u_description updates) (ce_description currentEntry))
                     (val_or (u_entityData updates) (ce_data currentEntry))
                     (str_or_null userId)
                     (str_or reason ''Updated'')))))"

definition lockEntry :: "store \<Rightarrow> string \<Rightarrow> lock_status \<Rightarrow> string \<Rightarrow> string \<Rightarrow> bool \<times> store" where
  "lockEntry db entryId lockStatus userId now =
     (case update_entry_row db entryId
             (no_update\<lparr>upd_lock_status := Some lockStatus,
                upd_locked_at := Some (if lockStatus \<noteq> Unlocked then Some now else None),
                upd_locked_by := Some (if lockStatus \<noteq> Unlocked then Some userId else None)\<rparr>) of
        (err, db') \<Rightarrow> (err = None, db'))"

definition deleteEntry :: "store \<Rightarrow> string \<Rightarrow> bool \<times> store" where
  "deleteEntry db entryId =
     (case update_entry_row db entryId (no_update\<lparr>upd_is_active := Some False\<rparr>) of
        (err, db') \<Rightarrow> (err = None, db'))"

definition forkTimeline ::
  "store \<Rightarrow> string \<Rightarrow> string \<Rightarrow> string \<Rightarrow> string \<Rightarrow> string \<Rightarrow> string \<Rightarrow> string \<Rightarrow> (failure + unit) \<times> store" where
  "forkTimeline db projectId forkPointCanonId name description userId newTimelineId newEntryId =
     (case select_entry db forkPointCanonId of
        Inl e \<Rightarrow> (Inl Not_found, db)
      | Inr canonEntry \<Rightarrow>
          (case insert_timeline db
                  \<lparr>tl_id = newTimelineId, tl_project_id = projectId, tl_name = name,
                   tl_description = description, tl_is_main = False,
                   tl_parent_timeline_id = None, tl_fork_point_event_id = None\<rparr> of
             (Inl timelineError, db1) \<Rightarrow> (Inl (Store_error timelineError), db1)
           | (Inr timeline, db1) \<Rightarrow>
               (case insert_entry db1
                       (canonEntry\<lparr>ce_id := newEntryId, ce_timeline_id := Some (tl_id timeline),
                                    ce_version := 1\<rparr>) of
                  (Inl duplicateError, db2) \<Rightarrow> (Inl (Store_error duplicateError), db2)
                | (Inr row, db2) \<Rightarrow> (Inr (), db2))))"

record conflict_resolution_request =
  rq_conflictId :: string
  rq_resolution :: string
  rq_updatedCanonData :: "jval option"
  rq_timelineName :: "string option"
  rq_timelineDescription :: "string option"

definition resolveConflict ::
  "(string \<Rightarrow> string) \<Rightarrow> (entity_table \<Rightarrow> jobject \<Rightarrow> bool) \<Rightarrow> store \<Rightarrow> string \<Rightarrow>
   conflict_resolution_request \<Rightarrow> string \<Rightarrow> string \<Rightarrow> string \<Rightarrow> (failure + unit) \<times> store" where
  "resolveConflict slugify accepts db projectId request userId newTimelineId newEntryId =
     (if rq_resolution request = ''keep_canon'' then (Inr (), db)
      else if rq_resolution request = ''update_canon'' then
        (if \<not> truthy_val (rq_updatedCanonData request) then (Inl Missing_data, db)
         else updateEntry slugify accepts db (rq_conflictId request)
                \<lparr>u_name = None, u_description = None, u_entityData = rq_updatedCanonData request\<rparr>
                (Some userId) (Some ''Canon updated via conflict resolution''))
      else if rq_resolution request = ''fork_timeline'' then
        forkTimeline db projectId (rq_conflictId request)
          (str_or (rq_timelineName request) ''Alternate Timeline'')
          (str_or (rq_timelineDescription request) ''Created from conflict resolution'')
          userId newTimelineId newEntryId
      else (Inl Unknown_resolution, db))"

definition restoreVersion ::
  "(string \<Rightarrow> string) \<Rightarrow> (entity_table \<Rightarrow> jobject \<Rightarrow> bool) \<Rightarrow> store \<Rightarrow> string \<Rightarrow> int \<Rightarrow> string \<Rightarrow>
   (failure + unit) \<times> store" where
  "restoreVersion slugify accepts db canonEntryId version userId =
     (case single (filter (\<lambda>v. cv_canon_entry_id v = canonEntryId \<and> cv_version v = version)
                     (canon_versions db)) of
        Inl versionError \<Rightarrow> (Inl Not_found, db)
      | Inr versionData \<Rightarrow>
          updateEntry slugify accepts db canonEntryId
            \<lparr>u_name = Some (cv_name versionData),
             u_description = Some (cv_description versionData),
             u_entityData = Some (cv_data versionData)\<rparr>
            (Some userId) (Some (''Restored to version '' @ show_int version)))"

text \<open>Reading a property of a value that may not be an object: \<^verbatim>\<open>data.description\<close>.\<close>

definition get_prop :: "jval \<Rightarrow> string \<Rightarrow> jval option" where
  "get_prop v k = (case v of JObj kvs \<Rightarrow> map_of kvs k | _ \<Rightarrow> None)"

text \<open>The object that \<^verbatim>\<open>createTypeSpecificRecord\<close> hands to \<^verbatim>\<open>.insert(...)\<close>.\<close>

definition type_specific_row ::
  "entity_type \<Rightarrow> string \<Rightarrow> string \<Rightarrow> string \<Rightarrow> jval \<Rightarrow> string \<Rightarrow> jobject" where
  "type_specific_row entityType projectId canonEntryId name data newId =
     (let baseRecord = [(''id'', JStr newId), (''canon_entry_id'', JStr canonEntryId),
                        (''project_id'', JStr projectId), (''name'', JStr name)]
      in case entityType of
           Rule \<Rightarrow> obj_merge (obj_merge baseRecord
                      [(''description'', val_or (get_prop data ''description'') (JStr []))])
                    (spread data)
         | _ \<Rightarrow> obj_merge baseRecord (spread data))"

definition createTypeSpecificRecord ::
  "(entity_table \<Rightarrow> jobject \<Rightarrow> bool) \<Rightarrow> store \<Rightarrow> entity_type \<Rightarrow> string \<Rightarrow> string \<Rightarrow> string \<Rightarrow> jval \<Rightarrow>
   string \<Rightarrow> string option \<times> store" where
  "createTypeSpecificRecord accepts db entityType projectId canonEntryId name data newId =
     (case table_of entityType of
        None \<Rightarrow> (None, db)
      | Some t \<Rightarrow>
          (case insert_row accepts db t
                  (type_specific_row entityType projectId canonEntryId name data newId) of
             (Inl e, db') \<Rightarrow> (None, db')
           | (Inr r, db') \<Rightarrow> (str_col ''id'' r, db')))"

text \<open>
  The row \<^verbatim>\<open>createEntry\<close> inserts into \<^verbatim>\<open>canon_entries\<close>: the columns it sets, the
  others at their defaults.
\<close>

definition new_entry_row ::
  "(string \<Rightarrow> string) \<Rightarrow> string \<Rightarrow> entity_type \<Rightarrow> string \<Rightarrow> string option \<Rightarrow> jval \<Rightarrow> string \<Rightarrow>
   canon_entry" where
  "new_entry_row slugify projectId entityType name description entityData newEntryId =
     \<lparr>ce_id = newEntryId, ce_project_id = projectId, ce_entity_type = entityType,
      ce_name = name, ce_slug = slugify name, ce_description = description,
      ce_data = entityData, ce_lock_status = Unlocked, ce_locked_at = None,
      ce_locked_by = None, ce_version = 1, ce_timeline_id = None, ce_is_active = True\<rparr>"

definition createEntry ::
  "(string \<Rightarrow> string) \<Rightarrow> (entity_table \<Rightarrow> jobject \<Rightarrow> bool) \<Rightarrow> store \<Rightarrow> string \<Rightarrow> entity_type \<Rightarrow>
   string \<Rightarrow> string option \<Rightarrow> jval \<Rightarrow> string \<Rightarrow> string \<Rightarrow> (failure + canon_entry \<times> string) \<times> store" where
  "createEntry slugify accepts db projectId entityType name description entityData newEntryId newRecordId =
     (case insert_entry db
             (new_entry_row slugify projectId entityType name description entityData newEntryId) of
        (Inl entryError, db1) \<Rightarrow> (Inl (Store_error entryError), db1)
      | (Inr entry, db1) \<Rightarrow>
          (case createTypeSpecificRecord accepts db1 entityType projectId (ce_id entry) name
                  entityData newRecordId of
             (entityId, db2) \<Rightarrow>
               if \<not> truthy_str entityId
               then (Inl No_type_record, snd (delete_entry_row db2 (ce_id entry)))
               else (Inr (entry, the entityId),
                     createVersion db2 (ce_id entry) 1 name (str_or_null description)
                       entityData None ''Created'')))"

subsection \<open>Loading the canon context\<close>

record canon_context_item =
  cx_id :: jval
  cx_name :: jval
  cx_description :: "string option"
  cx_locked :: bool
  cx_detail :: jobject

record canon_context =
  characters :: "canon_context_item list"
  locations :: "canon_context_item list"
  rules :: "canon_context_item list"
  events :: "canon_context_item list"
  themes :: "canon_context_item list"

text \<open>A column of a row that was read back: an absent value reads as null.\<close>

definition col :: "string \<Rightarrow> jobject \<Rightarrow> jval" where
  "col k r = (case map_of r k of None \<Rightarrow> JNull | Some v \<Rightarrow> v)"

definition jor :: "jval \<Rightarrow> jval \<Rightarrow> jval" where
  "jor v d = (if truthy v then v else d)"

text \<open>
  The query every loader runs: the rows of a type-specific table with the given
  \<^verbatim>\<open>project_id\<close>, each joined (\<^verbatim>\<open>canon_entries!inner\<close>) with its canon entry, kept
  when that entry has \<^verbatim>\<open>is_active = true\<close>.
\<close>

definition joined :: "store \<Rightarrow> entity_table \<Rightarrow> string \<Rightarrow> (jobject \<times> canon_entry) list" where
  "joined db t projectId =
     concat (map (\<lambda>r. map (Pair r)
                    (filter (\<lambda>e. str_col ''canon_entry_id'' r = Some (ce_id e) \<and> ce_is_active e)
                       (canon_entries db)))
               (filter (\<lambda>r. str_col ''project_id'' r = Some projectId) (entity_rows db t)))"

definition context_item :: "string list \<Rightarrow> string list \<Rightarrow> jobject \<times> canon_entry \<Rightarrow> canon_context_item" where
  "context_item plain listed = (\<lambda>(r, canon_entry).
     \<lparr>cx_id = col ''id'' r, cx_name = col ''name'' r,
      cx_description = ce_description canon_entry,
      cx_locked = (ce_lock_status canon_entry \<noteq> Unlocked),
      cx_detail = map (\<lambda>k. (k, col k r)) plain @ map (\<lambda>k. (k, jor (col k r) (JArr []))) listed\<rparr>)"

text \<open>\<^verbatim>\<open>ORDER BY priority DESC\<close> puts nulls first, \<^verbatim>\<open>ORDER BY relative_order\<close> last.\<close>

definition priority_desc :: "jobject \<times> canon_entry \<Rightarrow> nat \<times> int" where
  "priority_desc = (\<lambda>(r, e). case col ''priority'' r of JNum p \<Rightarrow> (1, - p) | _ \<Rightarrow> (0, 0))"

definition relative_order_asc :: "jobject \<times> canon_entry \<Rightarrow> nat \<times> int" where
  "relative_order_asc = (\<lambda>(r, e). case col ''relative_order'' r of JNum p \<Rightarrow> (0, p) | _ \<Rightarrow> (1, 0))"

definition loadCharacters :: "store \<Rightarrow> string \<Rightarrow> canon_context_item list" where
  "loadCharacters db projectId =
     map (context_item [''personality'', ''backstory'', ''relationships''] [])
       (joined db Canon_characters projectId)"

definition loadLocations :: "store \<Rightarrow> string \<Rightarrow> canon_context_item list" where
  "loadLocations db projectId =
     map (context_item [''atmosphere''] []) (joined db Canon_locations projectId)"

definition loadRules :: "store \<Rightarrow> string \<Rightarrow> canon_context_item list" where
  "loadRules db projectId =
     map (context_item [''priority''] [''constraints''])
       (sort_key priority_desc (joined db Canon_rules projectId))"

definition loadEvents :: "store \<Rightarrow> string \<Rightarrow> canon_context_item list" where
  "loadEvents db projectId =
     map (context_item [''story_date''] [''consequences''])
       (sort_key relative_order_asc (joined db Canon_events projectId))"

definition loadThemes :: "store \<Rightarrow> string \<Rightarrow> canon_context_item list" where
  "loadThemes db projectId =
     map (context_item [''how_expressed''] []) (joined db Canon_themes projectId)"

definition loadCanonContext :: "store \<Rightarrow> string \<Rightarrow> canon_context" where
  "loadCanonContext db projectId =
     \<lparr>characters = loadCharacters db projectId, locations = loadLocations db projectId,
      rules = loadRules db projectId, events = loadEvents db projectId,
      themes = loadThemes db projectId\<rparr>"

section \<open>The conflict detector\<close>

text \<open>
  \<^verbatim>\<open>StoryForgeGenerator.validateAgainstCanon\<close>. A JavaScript call either returns a
  value or throws. The collaborator (\<^verbatim>\<open>client.messages.create\<close>), \<^verbatim>\<open>JSON.parse\<close>,
  \<^verbatim>\<open>String.prototype.replace\<close> and the prompt builders of \<^verbatim>\<open>./prompts\<close> are
  parameters. \<open>parse\<close> is \<^verbatim>\<open>JSON.parse\<close> on a text that starts with a bracket: it
  yields an array or throws (\<open>None\<close>).
\<close>

datatype 'a outcome = Returns 'a | Throws

datatype canon_enforcement = Strict | Moderate | Relaxed

datatype content_block = Text_block string | Other_block

text \<open>
  \<^verbatim>\<open>text.match(/\[[\s\S]*\]/)\<close>: from the first opening bracket to the last closing
  bracket after it.
\<close>

definition match_array :: "string \<Rightarrow> string option" where
  "match_array s =
     (case dropWhile (\<lambda>c. c \<noteq> CHR ''['') s of
        [] \<Rightarrow> None
      | b # rest \<Rightarrow>
          (case dropWhile (\<lambda>c. c \<noteq> CHR '']'') (rev rest) of
             [] \<Rightarrow> None
           | c # cs \<Rightarrow> Some (b # rev (c # cs))))"

text \<open>\<^verbatim>\<open>c.severity === 'error'\<close>: reading a property of null throws.\<close>

fun severity_is_error :: "jval \<Rightarrow> bool outcome" where
  "severity_is_error JNull = Throws"
| "severity_is_error (JObj kvs) = Returns (map_of kvs ''severity'' = Some (JStr ''error''))"
| "severity_is_error v = Returns False"

fun filter_errors :: "jval list \<Rightarrow> jval list outcome" where
  "filter_errors [] = Returns []"
| "filter_errors (c # cs) =
     (case severity_is_error c of
        Throws \<Rightarrow> Throws
      | Returns keep \<Rightarrow>
          (case filter_errors cs of
             Throws \<Rightarrow> Throws
           | Returns kept \<Rightarrow> Returns (if keep then c # kept else kept)))"

record collaborators =
  replace :: "string \<Rightarrow> string \<Rightarrow> string \<Rightarrow> string"
  buildCanonContextPrompt :: "canon_context \<Rightarrow> string"
  canon_validation_prompt :: string
  create :: "string \<Rightarrow> content_block list outcome"
  parse :: "string \<Rightarrow> jval list option"

text \<open>The prompt sent to the collaborator.\<close>

definition validation_prompt :: "collaborators \<Rightarrow> string \<Rightarrow> canon_context \<Rightarrow> string" where
  "validation_prompt env content canonContext =
     replace env (replace env (canon_validation_prompt env) ''{CONTENT}'' content)
       ''{CANON}'' (buildCanonContextPrompt env canonContext)"

text \<open>The body of the \<^verbatim>\<open>try\<close> block, with the prompts it sent to the collaborator.\<close>

definition validate_try ::
  "collaborators \<Rightarrow> canon_enforcement \<Rightarrow> string \<Rightarrow> canon_context \<Rightarrow> jval list outcome \<times> string list" where
  "validate_try env canonEnforcement content canonContext =
     (let prompt = validation_prompt env content canonContext
      in (case create env prompt of
            Throws \<Rightarrow> Throws
          | Returns response \<Rightarrow>
              (case response of
                 [] \<Rightarrow> Throws
               | Other_block # others \<Rightarrow> Throws
               | Text_block text # others \<Rightarrow>
                   (case match_array text of
                      None \<Rightarrow> Returns []
                    | Some jsonMatch \<Rightarrow>
                        (case parse env jsonMatch of
                           None \<Rightarrow> Throws
                         | Some conflicts \<Rightarrow>
                             if canonEnforcement = Moderate then filter_errors conflicts
                             else Returns conflicts))),
          [prompt]))"

definition validateAgainstCanon ::
  "collaborators \<Rightarrow> canon_enforcement \<Rightarrow> string \<Rightarrow> canon_context \<Rightarrow> jval list outcome \<times> string list" where
  "validateAgainstCanon env canonEnforcement content canonContext =
     (if canonEnforcement = Relaxed then (Returns [], [])
      else case validate_try env canonEnforcement content canonContext of
             (Throws, sent) \<Rightarrow> (Returns [], sent)
           | (Returns conflicts, sent) \<Rightarrow> (Returns conflicts, sent))"

section \<open>Observing an entry over a run of updates\<close>

definition version_of :: "store \<Rightarrow> string \<Rightarrow> int list" where
  "version_of db i = map ce_version (filter (\<lambda>e. ce_id e = i) (canon_entries db))"

text \<open>
  A run of \<^verbatim>\<open>updateEntry\<close> calls on one entry: after each call that returned
  \<^verbatim>\<open>true\<close> the stored version is read.
\<close>

fun observed_versions ::
  "(string \<Rightarrow> string) \<Rightarrow> (entity_table \<Rightarrow> jobject \<Rightarrow> bool) \<Rightarrow> store \<Rightarrow> string \<Rightarrow>
   (entry_updates \<times> string option \<times> string option) list \<Rightarrow> int list" where
  "observed_versions slugify accepts db i [] = []"
| "observed_versions slugify accepts db i ((updates, userId, reason) # calls) =
     (case updateEntry slugify accepts db i updates userId reason of
        (Inl f, db') \<Rightarrow> observed_versions slugify accepts db' i calls
      | (Inr u, db') \<Rightarrow> version_of db' i @ observed_versions slugify accepts db' i calls)"

section \<open>A sample project\<close>

text \<open>
  The store of the scenario in the specification: project \<open>p1\<close> with the hard-locked
  character Elena at version 3 and the unlocked character Marcus at version 1, their
  rows in \<^verbatim>\<open>canon_characters\<close>, and the main timeline.
\<close>

definition elena :: canon_entry where
  "elena = \<lparr>ce_id = ''e1'', ce_project_id = ''p1'', ce_entity_type = Character,
     ce_name = ''Elena'', ce_slug = ''elena'', ce_description = None,
     ce_data = JObj [(''appearance'', JStr ''brown eyes'')], ce_lock_status = Hard_locked,
     ce_locked_at = Some ''t0'', ce_locked_by = Some ''u1'', ce_version = 3,
     ce_timeline_id = None, ce_is_active = True\<rparr>"

definition marcus :: canon_entry where
  "marcus = \<lparr>ce_id = ''e2'', ce_project_id = ''p1'', ce_entity_type = Character,
     ce_name = ''Marcus'', ce_slug = ''marcus'', ce_description = Some ''mentor'',
     ce_data = JObj [(''role'', JStr ''supporting'')], ce_lock_status = Unlocked,
     ce_locked_at = None, ce_locked_by = None, ce_version = 1,
     ce_timeline_id = None, ce_is_active = True\<rparr>"

definition first_version :: "canon_entry \<Rightarrow> canon_version" where
  "first_version e = \<lparr>cv_canon_entry_id = ce_id e, cv_version = 1, cv_name = ce_name e,
     cv_description = ce_description e, cv_data = ce_data e, cv_changed_by = None,
     cv_change_reason = ''Created'', cv_change_type = ''manual''\<rparr>"

definition main_timeline :: timeline where
  "main_timeline = \<lparr>tl_id = ''t1'', tl_project_id = ''p1'', tl_name = ''Main'',
     tl_description = ''canon'', tl_is_main = True, tl_parent_timeline_id = None,
     tl_fork_point_event_id = None\<rparr>"

definition character_row :: "string \<Rightarrow> canon_entry \<Rightarrow> jobject" where
  "character_row i e = [(''id'', JStr i), (''canon_entry_id'', JStr (ce_id e)),
     (''project_id'', JStr (ce_project_id e)), (''name'', JStr (ce_name e))]"

definition sample_store :: store where
  "sample_store = \<lparr>projects = [''p1''], users = [''u1''], canon_entries = [elena, marcus],
     canon_versions = [first_version elena, first_version marcus],
     timelines = [main_timeline],
     entity_rows = (\<lambda>t. if t = Canon_characters
                          then [character_row ''c1'' elena, character_row ''c2'' marcus] else [])\<rparr>"

text \<open>
  A store in which a character lives on a forked timeline \<open>t2\<close>, and one in which
  Elena has been retired (\<^verbatim>\<open>is_active = false\<close>).
\<close>

definition kai :: canon_entry where
  "kai = \<lparr>ce_id = ''e3'', ce_project_id = ''p1'', ce_entity_type = Character,
     ce_name = ''Kai'', ce_slug = ''kai'', ce_description = None,
     ce_data = JObj [], ce_lock_status = Soft_locked,
     ce_locked_at = Some ''t0'', ce_locked_by = Some ''u1'', ce_version = 1,
     ce_timeline_id = Some ''t2'', ce_is_active = True\<rparr>"

definition forked_store :: store where
  "forked_store = \<lparr>projects = [''p1''], users = [''u1''], canon_entries = [kai],
     canon_versions = [],
     timelines = [main_timeline,
       \<lparr>tl_id = ''t2'', tl_project_id = ''p1'', tl_name = ''What if'',
        tl_description = ''branch'', tl_is_main = False, tl_parent_timeline_id = Some ''t1'',
        tl_fork_point_event_id = None\<rparr>],
     entity_rows = (\<lambda>t. if t = Canon_characters then [character_row ''c3'' kai] else [])\<rparr>"

definition retired_store :: store where
  "retired_store = \<lparr>projects = [''p1''], users = [''u1''],
     canon_entries = [elena\<lparr>ce_is_active := False\<rparr>],
     canon_versions = [], timelines = [main_timeline], entity_rows = (\<lambda>t. [])\<rparr>"

text \<open>
  A sample of the parameters: a slug that is the name itself, and type-specific tables
  that take a row when each of its keys is one of the columns listed here (columns of
  the migration that the sample uses).
\<close>

definition sample_columns :: "string list" where
  "sample_columns = [''id'', ''canon_entry_id'', ''project_id'', ''name'', ''personality'',
     ''backstory'', ''role'', ''appearance'']"

definition sample_accepts :: "entity_table \<Rightarrow> jobject \<Rightarrow> bool" where
  "sample_accepts t r = list_all (\<lambda>kv. fst kv \<in> set sample_columns) r"

definition sample_slugify :: "string \<Rightarrow> string" where
  "sample_slugify s = s"

text \<open>
  A collaborator that gives every prompt the same answer, and \<^verbatim>\<open>JSON.parse\<close> on the
  spans of the sample: the list of two conflicts, the array \<^verbatim>\<open>[1]\<close>, and texts that are
  not JSON.
\<close>

definition sample_span :: string where
  \<open>sample_span = ''[{"severity":"warning"},{"severity":"error"}]''\<close>

definition sample_reply :: string where
  \<open>sample_reply = ''Conflicts: [{"severity":"warning"},{"severity":"error"}] (2)''\<close>

definition sample_parse :: "string \<Rightarrow> jval list option" where
  "sample_parse s =
     (if s = sample_span then Some [JObj [(''severity'', JStr ''warning'')],
                                    JObj [(''severity'', JStr ''error'')]]
      else if s = ''[1]'' then Some [JNum 1]
      else None)"

definition answering :: "content_block list outcome \<Rightarrow> collaborators" where
  "answering reply = \<lparr>replace = (\<lambda>s pat by. s), buildCanonContextPrompt = (\<lambda>c. []),
     canon_validation_prompt = ''check'', create = (\<lambda>p. reply), parse = sample_parse\<rparr>"

definition empty_context :: canon_context where
  "empty_context = \<lparr>characters = [], locations = [], rules = [], events = [], themes = []\<rparr>"

section \<open>Properties of the canon store\<close>

lemmas sample_defs = sample_store_def elena_def marcus_def first_version_def main_timeline_def
  character_row_def sample_accepts_def sample_columns_def sample_slugify_def

lemma filter_id_unique:
  "distinct (map ce_id es) \<Longrightarrow> e \<in> set es \<Longrightarrow> filter (\<lambda>x. ce_id x = ce_id e) es = [e]"
proof (induction es)
  case Nil
  then show ?case by simp
next
  case (Cons a es)
  show ?case
  proof (cases "a = e")
    case True
    with Cons.prems have "ce_id e \<notin> ce_id ` set es" by simp
    then have "\<forall>x \<in> set es. ce_id x \<noteq> ce_id e" by (metis imageI)
    then have "filter (\<lambda>x. ce_id x = ce_id e) es = []" by (simp add: filter_empty_conv)
    with True show ?thesis by simp
  next
    case False
    with Cons.prems have "e \<in> set es" "ce_id a \<noteq> ce_id e" by auto
    with Cons show ?thesis by simp
  qed
qed

lemma select_entry_unique:
  "distinct (map ce_id (canon_entries db)) \<Longrightarrow> e \<in> set (canon_entries db) \<Longrightarrow>
   select_entry db (ce_id e) = Inr e"
  by (simp add: select_entry_def single_def filter_id_unique)

lemma select_entry_Inr:
  "select_entry db i = Inr e \<Longrightarrow> filter (\<lambda>x. ce_id x = i) (canon_entries db) = [e]"
  by (auto simp: select_entry_def single_def split: list.splits)

lemma select_entry_Inr_id: "select_entry db i = Inr e \<Longrightarrow> ce_id e = i \<and> e \<in> set (canon_entries db)"
proof -
  assume "select_entry db i = Inr e"
  then have "filter (\<lambda>x. ce_id x = i) (canon_entries db) = [e]" by (rule select_entry_Inr)
  then have "e \<in> set (filter (\<lambda>x. ce_id x = i) (canon_entries db))" by simp
  then show ?thesis by simp
qed

lemma updateEntry_locked:
  "select_entry db i = Inr e \<Longrightarrow> ce_lock_status e = Hard_locked \<Longrightarrow>
   updateEntry slugify accepts db i updates userId reason = (Inl Locked, db)"
  by (simp add: updateEntry_def)

lemma updateEntry_not_locked:
  "select_entry db i = Inr e \<Longrightarrow> ce_lock_status e \<noteq> Hard_locked \<Longrightarrow>
   fst (updateEntry slugify accepts db i updates userId reason) \<noteq> Inl Locked"
  by (simp add: updateEntry_def split: prod.splits option.splits)

lemma ce_id_apply_update [simp]: "ce_id (apply_update u e) = ce_id e"
  by (simp add: apply_update_def)

lemma update_entry_row_select:
  assumes "select_entry db i = Inr e" and "update_entry_row db i u = (None, db')"
  shows "select_entry db' i = Inr (apply_update u e)"
proof -
  from assms(1) have f: "filter (\<lambda>x. ce_id x = i) (canon_entries db) = [e]" by (rule select_entry_Inr)
  with assms(2) have db': "db' = db\<lparr>canon_entries := map (\<lambda>x. if ce_id x = i then apply_update u x else x) (canon_entries db)\<rparr>"
    by (auto simp: update_entry_row_def split: option.splits)
  have "filter (\<lambda>x. ce_id x = i) (map (\<lambda>x. if ce_id x = i then apply_update u x else x) (canon_entries db))
        = map (apply_update u) (filter (\<lambda>x. ce_id x = i) (canon_entries db))"
    by (induction "canon_entries db") (auto simp: filter_map comp_def)
  with f db' show ?thesis by (simp add: select_entry_def single_def)
qed

lemma lockEntry_select:
  assumes "select_entry db i = Inr e" and "lockEntry db i s u now = (True, db')"
  shows "\<exists>e'. select_entry db' i = Inr e' \<and> ce_lock_status e' = s"
proof -
  let ?u = "no_update\<lparr>upd_lock_status := Some s,
                upd_locked_at := Some (if s \<noteq> Unlocked then Some now else None),
                upd_locked_by := Some (if s \<noteq> Unlocked then Some u else None)\<rparr>"
  from assms(2) have "update_entry_row db i ?u = (None, db')"
    by (auto simp: lockEntry_def split: prod.splits)
  with assms(1) have "select_entry db' i = Inr (apply_update ?u e)" by (rule update_entry_row_select)
  moreover have "ce_lock_status (apply_update ?u e) = s" by (simp add: apply_update_def no_update_def)
  ultimately show ?thesis by blast
qed

text \<open>
  C1. A hard-locked entry rejects every \<^verbatim>\<open>updateEntry\<close> at the lock check and the store
  stays as it was, version included; the same holds for \<^verbatim>\<open>resolveConflict\<close> with
  \<^verbatim>\<open>update_canon\<close>, which fails and changes nothing, at the lock check whenever it
  reaches \<^verbatim>\<open>updateEntry\<close>. Once \<^verbatim>\<open>lockEntry\<close> has moved the entry to another lock
  state, \<^verbatim>\<open>updateEntry\<close> is no longer refused for the lock.
\<close>

theorem hard_lock_invariant:
  assumes "distinct (map ce_id (canon_entries db))"
      and "e \<in> set (canon_entries db)"
      and "ce_lock_status e = Hard_locked"
  shows "updateEntry slugify accepts db (ce_id e) updates userId reason = (Inl Locked, db)
       \<and> (rq_resolution request = ''update_canon'' \<and> rq_conflictId request = ce_id e \<longrightarrow>
            \<not> succeeded (fst (resolveConflict slugify accepts db projectId request actor newTimelineId newEntryId))
          \<and> snd (resolveConflict slugify accepts db projectId request actor newTimelineId newEntryId) = db
          \<and> (truthy_val (rq_updatedCanonData request) \<longrightarrow>
               resolveConflict slugify accepts db projectId request actor newTimelineId newEntryId = (Inl Locked, db)))
       \<and> (\<forall>s u now db'. s \<noteq> Hard_locked \<and> lockEntry db (ce_id e) s u now = (True, db') \<longrightarrow>
            fst (updateEntry slugify accepts db' (ce_id e) updates userId reason) \<noteq> Inl Locked)"
proof -
  from assms(1,2) have sel: "select_entry db (ce_id e) = Inr e" by (rule select_entry_unique)
  have locked: "\<And>upd uid rsn. updateEntry slugify accepts db (ce_id e) upd uid rsn = (Inl Locked, db)"
    using sel assms(3) by (rule updateEntry_locked)
  have via: "rq_resolution request = ''update_canon'' \<and> rq_conflictId request = ce_id e \<longrightarrow>
            \<not> succeeded (fst (resolveConflict slugify accepts db projectId request actor newTimelineId newEntryId))
          \<and> snd (resolveConflict slugify accepts db projectId request actor newTimelineId newEntryId) = db
          \<and> (truthy_val (rq_updatedCanonData request) \<longrightarrow>
               resolveConflict slugify accepts db projectId request actor newTimelineId newEntryId = (Inl Locked, db))"
    by (simp add: resolveConflict_def locked succeeded_def)
  have after: "\<forall>s u now db'. s \<noteq> Hard_locked \<and> lockEntry db (ce_id e) s u now = (True, db') \<longrightarrow>
            fst (updateEntry slugify accepts db' (ce_id e) updates userId reason) \<noteq> Inl Locked"
  proof (intro allI impI)
    fix s u now db'
    assume h: "s \<noteq> Hard_locked \<and> lockEntry db (ce_id e) s u now = (True, db')"
    with sel obtain e' where "select_entry db' (ce_id e) = Inr e'" "ce_lock_status e' = s"
      using lockEntry_select by blast
    with h show "fst (updateEntry slugify accepts db' (ce_id e) updates userId reason) \<noteq> Inl Locked"
      by (simp add: updateEntry_not_locked)
  qed
  from locked via after show ?thesis by blast
qed

theorem hard_lock_invariant_witness:
  "distinct (map ce_id (canon_entries sample_store))
   \<and> elena \<in> set (canon_entries sample_store)
   \<and> ce_lock_status elena = Hard_locked
   \<and> updateEntry sample_slugify sample_accepts sample_store ''e1''
        \<lparr>u_name = Some ''Elena B'', u_description = None, u_entityData = None\<rparr> (Some ''u1'') None
      = (Inl Locked, sample_store)
   \<and> resolveConflict sample_slugify sample_accepts sample_store ''p1''
        \<lparr>rq_conflictId = ''e1'', rq_resolution = ''update_canon'',
         rq_updatedCanonData = Some (JObj [(''appearance'', JStr ''blue eyes'')]),
         rq_timelineName = None, rq_timelineDescription = None\<rparr> ''u1'' ''t2'' ''e9''
      = (Inl Locked, sample_store)
   \<and> fst (lockEntry sample_store ''e1'' Unlocked ''u1'' ''now'')
   \<and> fst (updateEntry sample_slugify sample_accepts
             (snd (lockEntry sample_store ''e1'' Unlocked ''u1'' ''now'')) ''e1''
             \<lparr>u_name = Some ''Elena B'', u_description = None, u_entityData = None\<rparr> (Some ''u1'') None)
       \<noteq> Inl Locked"
proof -
  have h1: "distinct (map ce_id (canon_entries sample_store))" by (simp add: sample_defs)
  have h2: "elena \<in> set (canon_entries sample_store)" by (simp add: sample_defs)
  have h3: "ce_lock_status elena = Hard_locked" by (simp add: elena_def)
  have i: "ce_id elena = ''e1''" by (simp add: elena_def)
  have lk: "fst (lockEntry sample_store ''e1'' Unlocked ''u1'' ''now'')"
    by (simp add: sample_defs lockEntry_def update_entry_row_def entry_violation_def
        apply_update_def no_update_def slug_taken_def int4_def)
  then have lk': "lockEntry sample_store ''e1'' Unlocked ''u1'' ''now''
              = (True, snd (lockEntry sample_store ''e1'' Unlocked ''u1'' ''now''))"
    by (cases "lockEntry sample_store ''e1'' Unlocked ''u1'' ''now''") simp
  note T = hard_lock_invariant [OF h1 h2 h3, of sample_slugify sample_accepts
      "\<lparr>u_name = Some ''Elena B'', u_description = None, u_entityData = None\<rparr>" "Some ''u1''" None
      "\<lparr>rq_conflictId = ''e1'', rq_resolution = ''update_canon'',
         rq_updatedCanonData = Some (JObj [(''appearance'', JStr ''blue eyes'')]),
         rq_timelineName = None, rq_timelineDescription = None\<rparr>" "''p1''" "''u1''" "''t2''" "''e9''"]
  from T have a: "updateEntry sample_slugify sample_accepts sample_store ''e1''
        \<lparr>u_name = Some ''Elena B'', u_description = None, u_entityData = None\<rparr> (Some ''u1'') None
      = (Inl Locked, sample_store)" by (simp add: i)
  from T have b: "resolveConflict sample_slugify sample_accepts sample_store ''p1''
        \<lparr>rq_conflictId = ''e1'', rq_resolution = ''update_canon'',
         rq_updatedCanonData = Some (JObj [(''appearance'', JStr ''blue eyes'')]),
         rq_timelineName = None, rq_timelineDescription = None\<rparr> ''u1'' ''t2'' ''e9''
      = (Inl Locked, sample_store)" by (simp add: i truthy_val_def)
  from T lk' have c: "fst (updateEntry sample_slugify sample_accepts
             (snd (lockEntry sample_store ''e1'' Unlocked ''u1'' ''now'')) ''e1''
             \<lparr>u_name = Some ''Elena B'', u_description = None, u_entityData = None\<rparr> (Some ''u1'') None)
       \<noteq> Inl Locked" unfolding i by blast
  from h1 h2 h3 a b lk c show ?thesis by blast
qed

subsection \<open>What a successful update writes\<close>

lemma createVersion_other [simp]:
  "canon_entries (createVersion db i v n d dat uid rs) = canon_entries db"
  "users (createVersion db i v n d dat uid rs) = users db"
  "projects (createVersion db i v n d dat uid rs) = projects db"
  "timelines (createVersion db i v n d dat uid rs) = timelines db"
  "entity_rows (createVersion db i v n d dat uid rs) = entity_rows db"
  by (simp_all add: createVersion_def insert_version_def)

lemma createVersion_versions:
  "canon_versions (createVersion db i v n d dat uid rs) =
     (if i \<in> ce_id ` set (canon_entries db) \<and> (case uid of None \<Rightarrow> True | Some u \<Rightarrow> u \<in> set (users db)) \<and> int4 v
      then canon_versions db @
           [\<lparr>cv_canon_entry_id = i, cv_version = v, cv_name = n, cv_description = d, cv_data = dat,
             cv_changed_by = uid, cv_change_reason = rs, cv_change_type = ''manual''\<rparr>]
      else canon_versions db)"
  by (auto simp: createVersion_def insert_version_def split: option.splits)

lemma update_rows_other:
  "update_rows accepts db t c u = (r, db') \<Longrightarrow>
   canon_entries db' = canon_entries db \<and> canon_versions db' = canon_versions db \<and>
   users db' = users db \<and> projects db' = projects db \<and> timelines db' = timelines db"
  by (auto simp: update_rows_def Let_def split: option.splits if_splits)

lemma updateTypeSpecificRecord_other [simp]:
  "canon_entries (snd (updateTypeSpecificRecord accepts db k i n dat)) = canon_entries db"
  "canon_versions (snd (updateTypeSpecificRecord accepts db k i n dat)) = canon_versions db"
  "users (snd (updateTypeSpecificRecord accepts db k i n dat)) = users db"
  "projects (snd (updateTypeSpecificRecord accepts db k i n dat)) = projects db"
  "timelines (snd (updateTypeSpecificRecord accepts db k i n dat)) = timelines db"
  by (auto simp: updateTypeSpecificRecord_def Let_def split: option.splits prod.splits
      dest: update_rows_other)

lemma update_entry_row_result:
  assumes "select_entry db i = Inr e"
  shows "update_entry_row db i u =
           (case entry_violation db (filter (\<lambda>x. ce_id x \<noteq> i) (canon_entries db)) (apply_update u e) of
              Some err \<Rightarrow> (Some err, db)
            | None \<Rightarrow> (None, db\<lparr>canon_entries :=
                         map (\<lambda>x. if ce_id x = i then apply_update u x else x) (canon_entries db)\<rparr>))"
  using select_entry_Inr [OF assms] by (simp add: update_entry_row_def)

lemma updateEntry_failed:
  "updateEntry slugify accepts db i updates userId reason = (Inl f, db') \<Longrightarrow> db' = db"
  by (auto simp: updateEntry_def update_entry_row_def split: sum.splits if_splits prod.splits option.splits list.splits)

lemma updateEntry_done:
  assumes sel: "select_entry db i = Inr e"
      and ok: "updateEntry slugify accepts db i updates userId reason = (Inr u, db')"
  shows "ce_lock_status e \<noteq> Hard_locked"
    and "entry_violation db (filter (\<lambda>x. ce_id x \<noteq> i) (canon_entries db))
           (apply_update (entryUpdates slugify e updates) e) = None"
    and "canon_entries db' =
           map (\<lambda>x. if ce_id x = i then apply_update (entryUpdates slugify e updates) x else x)
             (canon_entries db)"
    and "users db' = users db"
    and "canon_versions db' =
           (if (case str_or_null userId of None \<Rightarrow> True | Some a \<Rightarrow> a \<in> set (users db))
            then canon_versions db @
              [\<lparr>cv_canon_entry_id = i, cv_version = ce_version e + 1,
                cv_name = str_or (u_name updates) (ce_name e),
                cv_description = nullish_or (u_description updates) (ce_description e),
                cv_data = val_or (u_entityData updates) (ce_data e),
                cv_changed_by = str_or_null userId,
                cv_change_reason = str_or reason ''Updated'',
                cv_change_type = ''manual''\<rparr>]
            else canon_versions db)"
proof -
  let ?U = "entryUpdates slugify e updates"
  let ?others = "filter (\<lambda>x. ce_id x \<noteq> i) (canon_entries db)"
  let ?db1 = "db\<lparr>canon_entries := map (\<lambda>x. if ce_id x = i then apply_update ?U x else x) (canon_entries db)\<rparr>"
  from sel ok show nl: "ce_lock_status e \<noteq> Hard_locked"
    by (auto simp: updateEntry_def split: if_splits)
  from sel ok nl show viol: "entry_violation db ?others (apply_update ?U e) = None"
    by (auto simp: updateEntry_def update_entry_row_result [OF sel] split: option.splits)
  with sel have row: "update_entry_row db i ?U = (None, ?db1)"
    by (simp add: update_entry_row_result [OF sel])
  from sel ok nl row show ents: "canon_entries db' =
           map (\<lambda>x. if ce_id x = i then apply_update ?U x else x) (canon_entries db)"
    by (auto simp: updateEntry_def)
  from sel ok nl row show "users db' = users db"
    by (auto simp: updateEntry_def)
  from sel have mem: "e \<in> set (canon_entries db)" "ce_id e = i"
    using select_entry_Inr_id by blast+
  have "map ce_id (canon_entries ?db1) = map ce_id (canon_entries db)"
    by (induction "canon_entries db") (auto simp: comp_def)
  then have "set (map ce_id (canon_entries ?db1)) = set (map ce_id (canon_entries db))" by simp
  with mem have present: "i \<in> ce_id ` set (canon_entries ?db1)"
    by (metis image_eqI set_map)
  from viol have "int4 (ce_version (apply_update ?U e))"
    by (auto simp: entry_violation_def split: if_splits)
  then have range: "int4 (ce_version e + 1)"
    by (simp add: apply_update_def entryUpdates_def no_update_def)
  let ?db2 = "if truthy_val (u_entityData updates)
              then snd (updateTypeSpecificRecord accepts ?db1 (ce_entity_type e) i
                     (str_or (u_name updates) (ce_name e)) (the (u_entityData updates)))
              else ?db1"
  from sel ok nl row have db': "db' = createVersion ?db2 i (ce_version e + 1)
      (str_or (u_name updates) (ce_name e))
      (nullish_or (u_description updates) (ce_description e))
      (val_or (u_entityData updates) (ce_data e))
      (str_or_null userId) (str_or reason ''Updated'')"
    by (simp add: updateEntry_def)
  have e2: "canon_entries ?db2 = canon_entries ?db1" by simp
  have u2: "users ?db2 = users db" by simp
  have v2: "canon_versions ?db2 = canon_versions db" by simp
  from present e2 have p2: "i \<in> ce_id ` set (canon_entries ?db2)" by simp
  show "canon_versions db' =
           (if (case str_or_null userId of None \<Rightarrow> True | Some a \<Rightarrow> a \<in> set (users db))
            then canon_versions db @
              [\<lparr>cv_canon_entry_id = i, cv_version = ce_version e + 1,
                cv_name = str_or (u_name updates) (ce_name e),
                cv_description = nullish_or (u_description updates) (ce_description e),
                cv_data = val_or (u_entityData updates) (ce_data e),
                cv_changed_by = str_or_null userId,
                cv_change_reason = str_or reason ''Updated'',
                cv_change_type = ''manual''\<rparr>]
            else canon_versions db)"
    unfolding db' createVersion_versions using p2 range u2 v2 by (simp cong: option.case_cong)
qed

lemma updateEntry_done_select:
  assumes sel: "select_entry db i = Inr e"
      and ok: "updateEntry slugify accepts db i updates userId reason = (Inr u, db')"
  shows "select_entry db' i = Inr (apply_update (entryUpdates slugify e updates) e)"
proof -
  let ?U = "entryUpdates slugify e updates"
  have "filter (\<lambda>x. ce_id x = i) (map (\<lambda>x. if ce_id x = i then apply_update ?U x else x) (canon_entries db))
        = map (apply_update ?U) (filter (\<lambda>x. ce_id x = i) (canon_entries db))"
    by (induction "canon_entries db") (auto simp: filter_map comp_def)
  with updateEntry_done(3) [OF sel ok] select_entry_Inr [OF sel] show ?thesis
    by (simp add: select_entry_def single_def)
qed

lemma version_after_update [simp]:
  "ce_version (apply_update (entryUpdates slugify e updates) e) = ce_version e + 1"
  by (simp add: apply_update_def entryUpdates_def no_update_def)

lemma version_of_select: "select_entry db i = Inr e \<Longrightarrow> version_of db i = [ce_version e]"
  by (simp add: version_of_def select_entry_Inr)

lemma observed_versions_run:
  "select_entry db i = Inr e \<Longrightarrow>
   observed_versions slugify accepts db i calls =
     map (\<lambda>k. ce_version e + int (Suc k)) [0..<length (observed_versions slugify accepts db i calls)]"
proof (induction calls arbitrary: db e)
  case Nil
  then show ?case by simp
next
  case (Cons c calls)
  obtain updates userId reason where c: "c = (updates, userId, reason)" by (cases c) auto
  obtain r db' where step: "updateEntry slugify accepts db i updates userId reason = (r, db')"
    by (cases "updateEntry slugify accepts db i updates userId reason") auto
  show ?case
  proof (cases r)
    case (Inl f)
    with step have "db' = db" by (simp add: updateEntry_failed)
    with Cons c step Inl show ?thesis by simp
  next
    case (Inr u)
    let ?e' = "apply_update (entryUpdates slugify e updates) e"
    from Cons.prems step Inr have sel': "select_entry db' i = Inr ?e'"
      by (simp add: updateEntry_done_select)
    let ?rest = "observed_versions slugify accepts db' i calls"
    from Cons.IH [OF sel'] have rest: "?rest = map (\<lambda>k. ce_version e + 1 + int (Suc k)) [0..<length ?rest]"
      by simp
    have "observed_versions slugify accepts db i (c # calls) = (ce_version e + 1) # ?rest"
      using c step Inr sel' by (simp add: version_of_select)
    also have "\<dots> = map (\<lambda>k. ce_version e + int (Suc k)) [0..<Suc (length ?rest)]"
      unfolding map_upt_Suc using rest by (simp add: ac_simps)
    finally show ?thesis by simp
  qed
qed

text \<open>
  C3. A successful \<^verbatim>\<open>updateEntry\<close> leaves the entry with its version raised by exactly
  one, and over any run of calls on the entry the versions read after the successful
  ones are \<open>v + 1, v + 2, \<dots>\<close> with no gap, \<open>v\<close> being the version at the start.
\<close>

theorem version_increments:
  assumes "distinct (map ce_id (canon_entries db))"
      and "e \<in> set (canon_entries db)"
  shows "(updateEntry slugify accepts db (ce_id e) updates userId reason = (Inr (), db') \<longrightarrow>
            version_of db' (ce_id e) = [ce_version e + 1])
       \<and> observed_versions slugify accepts db (ce_id e) calls =
           map (\<lambda>k. ce_version e + int (Suc k))
             [0..<length (observed_versions slugify accepts db (ce_id e) calls)]"
proof -
  from assms have sel: "select_entry db (ce_id e) = Inr e" by (rule select_entry_unique)
  have "updateEntry slugify accepts db (ce_id e) updates userId reason = (Inr (), db') \<longrightarrow>
            version_of db' (ce_id e) = [ce_version e + 1]"
  proof
    assume "updateEntry slugify accepts db (ce_id e) updates userId reason = (Inr (), db')"
    with sel have "select_entry db' (ce_id e) = Inr (apply_update (entryUpdates slugify e updates) e)"
      by (rule updateEntry_done_select)
    then show "version_of db' (ce_id e) = [ce_version e + 1]"
      by (simp add: version_of_select)
  qed
  moreover note observed_versions_run [OF sel]
  ultimately show ?thesis by blast
qed

lemmas update_defs = updateEntry_def select_entry_def single_def update_entry_row_def
  entry_violation_def slug_taken_def int4_def entryUpdates_def apply_update_def no_update_def
  createVersion_def insert_version_def updateTypeSpecificRecord_def update_rows_def
  row_violation_def null_col_def table_of_def truthy_str_def truthy_val_def str_or_def val_or_def
  str_or_null_def nullish_or_def str_col_def obj_merge_def

theorem version_increments_witness:
  "distinct (map ce_id (canon_entries sample_store))
   \<and> marcus \<in> set (canon_entries sample_store)
   \<and> fst (updateEntry sample_slugify sample_accepts sample_store ''e2''
             \<lparr>u_name = Some ''Marcus Chen'', u_description = None, u_entityData = None\<rparr>
             (Some ''u1'') None) = Inr ()
   \<and> version_of (snd (updateEntry sample_slugify sample_accepts sample_store ''e2''
             \<lparr>u_name = Some ''Marcus Chen'', u_description = None, u_entityData = None\<rparr>
             (Some ''u1'') None)) ''e2'' = [2]
   \<and> observed_versions sample_slugify sample_accepts sample_store ''e2''
        [(\<lparr>u_name = Some ''Marcus Chen'', u_description = None, u_entityData = None\<rparr>, Some ''u1'', None),
         (\<lparr>u_name = Some ''elena'', u_description = None, u_entityData = None\<rparr>, Some ''u1'', None),
         (\<lparr>u_name = None, u_description = Some (Some ''professor''), u_entityData = None\<rparr>, None, None)]
      = [2, 3]"
proof -
  let ?u1 = "\<lparr>u_name = Some ''Marcus Chen'', u_description = None, u_entityData = None\<rparr>"
  let ?calls = "[(?u1, Some ''u1'', None),
         (\<lparr>u_name = Some ''elena'', u_description = None, u_entityData = None\<rparr>, Some ''u1'', None),
         (\<lparr>u_name = None, u_description = Some (Some ''professor''), u_entityData = None\<rparr>, None, None)]"
  have h1: "distinct (map ce_id (canon_entries sample_store))" by (simp add: sample_defs)
  have h2: "marcus \<in> set (canon_entries sample_store)" by (simp add: sample_defs)
  have i: "ce_id marcus = ''e2''" and v: "ce_version marcus = 1" by (simp_all add: marcus_def)
  have ok: "fst (updateEntry sample_slugify sample_accepts sample_store ''e2'' ?u1 (Some ''u1'') None) = Inr ()"
    by (simp add: sample_defs update_defs)
  then have ok': "updateEntry sample_slugify sample_accepts sample_store ''e2'' ?u1 (Some ''u1'') None
      = (Inr (), snd (updateEntry sample_slugify sample_accepts sample_store ''e2'' ?u1 (Some ''u1'') None))"
    by (metis prod.collapse)
  have len: "length (observed_versions sample_slugify sample_accepts sample_store ''e2'' ?calls) = 2"
    by (simp add: sample_defs update_defs version_of_def)
  note T = version_increments [OF h1 h2, of sample_slugify sample_accepts ?u1 "Some ''u1''" None
      "snd (updateEntry sample_slugify sample_accepts sample_store ''e2'' ?u1 (Some ''u1'') None)" ?calls]
  from T ok' have a: "version_of (snd (updateEntry sample_slugify sample_accepts sample_store ''e2'' ?u1
      (Some ''u1'') None)) ''e2'' = [2]"
    unfolding i v by simp
  from T have "observed_versions sample_slugify sample_accepts sample_store ''e2'' ?calls =
      map (\<lambda>k. 1 + int (Suc k)) [0..<2]"
    unfolding i v len by blast
  then have b: "observed_versions sample_slugify sample_accepts sample_store ''e2'' ?calls = [2, 3]"
    by (simp add: upt_rec)
  from h1 h2 ok a b show ?thesis by blast
qed

subsection \<open>Restoring a version\<close>

lemma restoreVersion_missing:
  "filter (\<lambda>v. cv_canon_entry_id v = i \<and> cv_version v = n) (canon_versions db) = [] \<Longrightarrow>
   restoreVersion slugify accepts db i n actor = (Inl Not_found, db)"
  by (simp add: restoreVersion_def single_def)





subsection \<open>Conflict resolution on the sample project\<close>

lemmas resolve_defs = resolveConflict_def forkTimeline_def insert_timeline_def insert_entry_def

text \<open>
  C8 at a concrete input. Marcus is unlocked at version 1; the conflict is resolved with
  \<^verbatim>\<open>update_canon\<close> and a new payload. The update succeeds and appends the snapshot of
  the new state with the reason of the resolution path, and its \<^verbatim>\<open>change_type\<close> is
  \<^verbatim>\<open>manual\<close>, the only value \<^verbatim>\<open>createVersion\<close> writes.
\<close>

theorem update_canon_recorded_as_manual:
  "resolveConflict sample_slugify sample_accepts sample_store ''p1''
     \<lparr>rq_conflictId = ''e2'', rq_resolution = ''update_canon'',
      rq_updatedCanonData = Some (JObj [(''role'', JStr ''protagonist'')]),
      rq_timelineName = None, rq_timelineDescription = None\<rparr> ''u1'' ''t2'' ''e9''
   = (Inr (),
      sample_store
        \<lparr>canon_entries := [elena, marcus\<lparr>ce_data := JObj [(''role'', JStr ''protagonist'')], ce_version := 2\<rparr>],
         canon_versions := [first_version elena, first_version marcus,
           \<lparr>cv_canon_entry_id = ''e2'', cv_version = 2, cv_name = ''Marcus'',
            cv_description = Some ''mentor'', cv_data = JObj [(''role'', JStr ''protagonist'')],
            cv_changed_by = Some ''u1'',
            cv_change_reason = ''Canon updated via conflict resolution'',
            cv_change_type = ''manual''\<rparr>],
         entity_rows := (\<lambda>t. if t = Canon_characters
            then [character_row ''c1'' elena,
                  [(''id'', JStr ''c2''), (''canon_entry_id'', JStr ''e2''), (''project_id'', JStr ''p1''),
                   (''name'', JStr ''Marcus''), (''role'', JStr ''protagonist'')]]
            else [])\<rparr>)"
  by (simp add: resolve_defs sample_defs update_defs fun_eq_iff)

text \<open>
  C2 at concrete inputs. On the sample project the conflict about Elena is resolved with
  \<^verbatim>\<open>fork_timeline\<close>: the timeline row is inserted with no parent, although \<open>t1\<close> is the
  main timeline of the project, and the copy of the entry is refused by the slug index,
  since the active original holds the slug; the call returns \<^verbatim>\<open>false\<close>. When the
  original is inactive the copy is inserted on the new timeline at version 1, the
  parent of the timeline still being null. In both runs the original row is unchanged.
\<close>

theorem fork_timeline_on_sample:
  "resolveConflict sample_slugify sample_accepts sample_store ''p1''
     \<lparr>rq_conflictId = ''e1'', rq_resolution = ''fork_timeline'', rq_updatedCanonData = None,
      rq_timelineName = Some ''Blue-eyed AU'', rq_timelineDescription = None\<rparr> ''u1'' ''t2'' ''e9''
   = (Inl (Store_error Unique_violation),
      sample_store\<lparr>timelines := [main_timeline,
         \<lparr>tl_id = ''t2'', tl_project_id = ''p1'', tl_name = ''Blue-eyed AU'',
          tl_description = ''Created from conflict resolution'', tl_is_main = False,
          tl_parent_timeline_id = None, tl_fork_point_event_id = None\<rparr>]\<rparr>)
   \<and> resolveConflict sample_slugify sample_accepts retired_store ''p1''
     \<lparr>rq_conflictId = ''e1'', rq_resolution = ''fork_timeline'', rq_updatedCanonData = None,
      rq_timelineName = Some ''Blue-eyed AU'', rq_timelineDescription = None\<rparr> ''u1'' ''t2'' ''e9''
   = (Inr (),
      retired_store\<lparr>timelines := [main_timeline,
         \<lparr>tl_id = ''t2'', tl_project_id = ''p1'', tl_name = ''Blue-eyed AU'',
          tl_description = ''Created from conflict resolution'', tl_is_main = False,
          tl_parent_timeline_id = None, tl_fork_point_event_id = None\<rparr>],
        canon_entries := [elena\<lparr>ce_is_active := False\<rparr>,
          elena\<lparr>ce_is_active := False, ce_id := ''e9'', ce_timeline_id := Some ''t2'', ce_version := 1\<rparr>]\<rparr>)"
  by (simp add: resolve_defs sample_defs retired_store_def update_defs)

subsection \<open>The context loader\<close>

lemma joined_iff:
  "(r, e) \<in> set (joined db t p) \<longleftrightarrow>
     r \<in> set (entity_rows db t) \<and> e \<in> set (canon_entries db) \<and>
     str_col ''project_id'' r = Some p \<and> str_col ''canon_entry_id'' r = Some (ce_id e) \<and>
     ce_is_active e"
  by (auto simp: joined_def)

lemma loaded_iff:
  "item \<in> set (map (context_item plain listed) (joined db t p)) \<longleftrightarrow>
     (\<exists>r \<in> set (entity_rows db t). \<exists>e \<in> set (canon_entries db).
        str_col ''project_id'' r = Some p \<and> str_col ''canon_entry_id'' r = Some (ce_id e) \<and>
        ce_is_active e \<and> item = context_item plain listed (r, e))"
proof
  assume "item \<in> set (map (context_item plain listed) (joined db t p))"
  then obtain r e where "(r, e) \<in> set (joined db t p)" "item = context_item plain listed (r, e)"
    by auto
  then show "\<exists>r \<in> set (entity_rows db t). \<exists>e \<in> set (canon_entries db).
        str_col ''project_id'' r = Some p \<and> str_col ''canon_entry_id'' r = Some (ce_id e) \<and>
        ce_is_active e \<and> item = context_item plain listed (r, e)"
    unfolding joined_iff by blast
next
  assume "\<exists>r \<in> set (entity_rows db t). \<exists>e \<in> set (canon_entries db).
        str_col ''project_id'' r = Some p \<and> str_col ''canon_entry_id'' r = Some (ce_id e) \<and>
        ce_is_active e \<and> item = context_item plain listed (r, e)"
  then obtain r e where "(r, e) \<in> set (joined db t p)" "item = context_item plain listed (r, e)"
    unfolding joined_iff by blast
  then show "item \<in> set (map (context_item plain listed) (joined db t p))"
    by (metis image_eqI set_map)
qed

lemma loaded_sorted_iff:
  "item \<in> set (map (context_item plain listed) (sort_key f (joined db t p))) \<longleftrightarrow>
   item \<in> set (map (context_item plain listed) (joined db t p))"
  by simp

text \<open>
  C5, as the code has it. Each list of the loaded context holds exactly the rows of its
  type-specific table that carry the project's id and whose canon entry is active,
  whatever the timeline of that entry (the loader takes no timeline and reads none);
  every item has \<open>locked\<close> true exactly when the lock state of its entry is not
  \<open>unlocked\<close>.
\<close>

theorem loadCanonContext_active_entries:
  assumes "(part, t, plain, listed) \<in>
     {(characters, Canon_characters, [''personality'', ''backstory'', ''relationships''], []),
      (locations, Canon_locations, [''atmosphere''], []),
      (rules, Canon_rules, [''priority''], [''constraints'']),
      (events, Canon_events, [''story_date''], [''consequences'']),
      (themes, Canon_themes, [''how_expressed''], [])}"
  shows "(item \<in> set (part (loadCanonContext db p)) \<longleftrightarrow>
           (\<exists>r \<in> set (entity_rows db t). \<exists>e \<in> set (canon_entries db).
              str_col ''project_id'' r = Some p \<and> str_col ''canon_entry_id'' r = Some (ce_id e) \<and>
              ce_is_active e \<and> item = context_item plain listed (r, e)))
       \<and> cx_locked (context_item plain listed (r', e')) = (ce_lock_status e' \<noteq> Unlocked)"
proof -
  have locked: "cx_locked (context_item plain listed (r', e')) = (ce_lock_status e' \<noteq> Unlocked)"
    by (simp add: context_item_def)
  have "set (part (loadCanonContext db p)) = set (map (context_item plain listed) (joined db t p))"
    using assms
    by (auto simp: loadCanonContext_def loadCharacters_def loadLocations_def loadRules_def
        loadEvents_def loadThemes_def)
  then have "item \<in> set (part (loadCanonContext db p)) \<longleftrightarrow>
             item \<in> set (map (context_item plain listed) (joined db t p))"
    by simp
  with locked show ?thesis unfolding loaded_iff by blast
qed

lemmas load_defs = loadCanonContext_def loadCharacters_def loadLocations_def loadRules_def
  loadEvents_def loadThemes_def joined_def context_item_def col_def jor_def str_col_def
  forked_store_def kai_def character_row_def main_timeline_def

theorem loadCanonContext_active_entries_witness:
  "character_row ''c3'' kai \<in> set (entity_rows forked_store Canon_characters)
   \<and> kai \<in> set (canon_entries forked_store)
   \<and> ce_is_active kai \<and> ce_timeline_id kai = Some ''t2'' \<and> ce_lock_status kai = Soft_locked
   \<and> context_item [''personality'', ''backstory'', ''relationships''] [] (character_row ''c3'' kai, kai)
        \<in> set (characters (loadCanonContext forked_store ''p1''))
   \<and> cx_locked (context_item [''personality'', ''backstory'', ''relationships''] []
        (character_row ''c3'' kai, kai))"
proof -
  have m: "(characters, Canon_characters, [''personality'', ''backstory'', ''relationships''], [])
     \<in> {(characters, Canon_characters, [''personality'', ''backstory'', ''relationships''], []),
      (locations, Canon_locations, [''atmosphere''], []),
      (rules, Canon_rules, [''priority''], [''constraints'']),
      (events, Canon_events, [''story_date''], [''consequences'']),
      (themes, Canon_themes, [''how_expressed''], [])}"
    by simp
  have r: "character_row ''c3'' kai \<in> set (entity_rows forked_store Canon_characters)"
    by (simp add: forked_store_def)
  have e: "kai \<in> set (canon_entries forked_store)" by (simp add: forked_store_def)
  have k: "ce_is_active kai" "ce_timeline_id kai = Some ''t2''" "ce_lock_status kai = Soft_locked"
    by (simp_all add: kai_def)
  have c: "str_col ''project_id'' (character_row ''c3'' kai) = Some ''p1''"
     "str_col ''canon_entry_id'' (character_row ''c3'' kai) = Some (ce_id kai)"
    by (simp_all add: character_row_def str_col_def kai_def)
  note T = loadCanonContext_active_entries [OF m, of _ forked_store "''p1''" "character_row ''c3'' kai" kai]
  from T r e k(1) c have a: "context_item [''personality'', ''backstory'', ''relationships''] []
        (character_row ''c3'' kai, kai) \<in> set (characters (loadCanonContext forked_store ''p1''))"
    by blast
  from T k(3) have b: "cx_locked (context_item [''personality'', ''backstory'', ''relationships''] []
        (character_row ''c3'' kai, kai))"
    by simp
  from r e k a b show ?thesis by blast
qed

theorem loadCanonContext_other_timeline_counterexample:
  "main_timeline \<in> set (timelines forked_store)
   \<and> tl_is_main main_timeline \<and> tl_project_id main_timeline = ''p1'' \<and> tl_id main_timeline = ''t1''
   \<and> canon_entries forked_store = [kai]
   \<and> ce_timeline_id kai = Some ''t2''
   \<and> characters (loadCanonContext forked_store ''p1'') =
       [\<lparr>cx_id = JStr ''c3'', cx_name = JStr ''Kai'', cx_description = None, cx_locked = True,
         cx_detail = [(''personality'', JNull), (''backstory'', JNull), (''relationships'', JNull)]\<rparr>]"
  by (simp add: load_defs)

subsection \<open>The conflict detector\<close>

lemma filter_errors_objects:
  "JNull \<notin> set cs \<Longrightarrow>
   filter_errors cs = Returns (filter (\<lambda>c. get_prop c ''severity'' = Some (JStr ''error'')) cs)"
proof (induction cs)
  case Nil
  then show ?case by simp
next
  case (Cons c cs)
  then have "c \<noteq> JNull" by auto
  then have "severity_is_error c = Returns (get_prop c ''severity'' = Some (JStr ''error''))"
    by (cases c) (simp_all add: get_prop_def)
  with Cons show ?case by simp
qed

lemma validate_try_parsed:
  assumes "create env (validation_prompt env content canonContext) = Returns (Text_block text # others)"
      and "match_array text = Some jsonMatch"
      and "parse env jsonMatch = Some conflicts"
  shows "validate_try env lvl content canonContext =
           (if lvl = Moderate then filter_errors conflicts else Returns conflicts,
            [validation_prompt env content canonContext])"
  using assms by (simp add: validate_try_def)

text \<open>
  C6. With enforcement \<open>relaxed\<close> the result is the empty list and nothing is sent to the
  collaborator. Otherwise one prompt is sent; when the reply is a text whose bracketed
  span parses to the list \<open>conflicts\<close>, \<open>strict\<close> returns that list as it is and
  \<open>moderate\<close> returns its members whose \<open>severity\<close> is \<open>error\<close> (the reported
  conflicts being objects, none of them null).
\<close>

theorem enforcement_filter:
  "validateAgainstCanon env Relaxed content canonContext = (Returns [], [])
   \<and> (create env (validation_prompt env content canonContext) = Returns (Text_block text # others)
        \<and> match_array text = Some jsonMatch \<and> parse env jsonMatch = Some conflicts
      \<longrightarrow> validateAgainstCanon env Strict content canonContext =
            (Returns conflicts, [validation_prompt env content canonContext])
        \<and> (JNull \<notin> set conflicts \<longrightarrow>
             validateAgainstCanon env Moderate content canonContext =
               (Returns (filter (\<lambda>c. get_prop c ''severity'' = Some (JStr ''error'')) conflicts),
                [validation_prompt env content canonContext])))"
proof (intro conjI impI)
  show "validateAgainstCanon env Relaxed content canonContext = (Returns [], [])"
    by (simp add: validateAgainstCanon_def)
next
  assume h: "create env (validation_prompt env content canonContext) = Returns (Text_block text # others)
        \<and> match_array text = Some jsonMatch \<and> parse env jsonMatch = Some conflicts"
  then show "validateAgainstCanon env Strict content canonContext =
            (Returns conflicts, [validation_prompt env content canonContext])"
    by (simp add: validateAgainstCanon_def validate_try_parsed)
next
  assume h: "create env (validation_prompt env content canonContext) = Returns (Text_block text # others)
        \<and> match_array text = Some jsonMatch \<and> parse env jsonMatch = Some conflicts"
     and n: "JNull \<notin> set conflicts"
  from h have "validate_try env Moderate content canonContext =
      (filter_errors conflicts, [validation_prompt env content canonContext])"
    by (simp add: validate_try_parsed)
  with n show "validateAgainstCanon env Moderate content canonContext =
               (Returns (filter (\<lambda>c. get_prop c ''severity'' = Some (JStr ''error'')) conflicts),
                [validation_prompt env content canonContext])"
    by (simp add: validateAgainstCanon_def filter_errors_objects)
qed

lemmas detector_defs = answering_def sample_parse_def validation_prompt_def match_array_def
  empty_context_def sample_span_def sample_reply_def

theorem enforcement_filter_witness:
  "create (answering (Returns [Text_block sample_reply]))
      (validation_prompt (answering (Returns [Text_block sample_reply])) ''Elena has blue eyes'' empty_context)
     = Returns [Text_block sample_reply]
   \<and> match_array sample_reply = Some sample_span
   \<and> parse (answering (Returns [Text_block sample_reply])) sample_span
       = Some [JObj [(''severity'', JStr ''warning'')], JObj [(''severity'', JStr ''error'')]]
   \<and> validateAgainstCanon (answering (Returns [Text_block sample_reply])) Relaxed
        ''Elena has blue eyes'' empty_context = (Returns [], [])
   \<and> validateAgainstCanon (answering (Returns [Text_block sample_reply])) Strict
        ''Elena has blue eyes'' empty_context
       = (Returns [JObj [(''severity'', JStr ''warning'')], JObj [(''severity'', JStr ''error'')]], [''check''])
   \<and> validateAgainstCanon (answering (Returns [Text_block sample_reply])) Moderate
        ''Elena has blue eyes'' empty_context
       = (Returns [JObj [(''severity'', JStr ''error'')]], [''check''])"
proof -
  let ?env = "answering (Returns [Text_block sample_reply])"
  let ?cs = "[JObj [(''severity'', JStr ''warning'')], JObj [(''severity'', JStr ''error'')]]"
  have p: "validation_prompt ?env ''Elena has blue eyes'' empty_context = ''check''"
    by (simp add: answering_def validation_prompt_def)
  have h1: "create ?env (validation_prompt ?env ''Elena has blue eyes'' empty_context)
     = Returns (Text_block sample_reply # [])"
    by (simp add: answering_def)
  have h2: "match_array sample_reply = Some sample_span"
    by (simp add: match_array_def sample_reply_def sample_span_def)
  have h3: "parse ?env sample_span = Some ?cs" by (simp add: answering_def sample_parse_def)
  have h4: "JNull \<notin> set ?cs" by simp
  have f: "filter (\<lambda>c. get_prop c ''severity'' = Some (JStr ''error'')) ?cs = [JObj [(''severity'', JStr ''error'')]]"
    by (simp add: get_prop_def)
  note T = enforcement_filter [of ?env "''Elena has blue eyes''" empty_context sample_reply "[]"
      sample_span ?cs]
  from T have a: "validateAgainstCanon ?env Relaxed ''Elena has blue eyes'' empty_context = (Returns [], [])"
    by blast
  from T h1 h2 h3 have b: "validateAgainstCanon ?env Strict ''Elena has blue eyes'' empty_context
       = (Returns ?cs, [''check''])"
    unfolding p by blast
  from T h1 h2 h3 h4 have "validateAgainstCanon ?env Moderate ''Elena has blue eyes'' empty_context
       = (Returns (filter (\<lambda>c. get_prop c ''severity'' = Some (JStr ''error'')) ?cs), [''check''])"
    unfolding p by blast
  then have c: "validateAgainstCanon ?env Moderate ''Elena has blue eyes'' empty_context
       = (Returns [JObj [(''severity'', JStr ''error'')]], [''check''])"
    unfolding f .
  from h1 h2 h3 a b c show ?thesis by simp
qed

text \<open>
  C7, as the code has it. \<^verbatim>\<open>validateAgainstCanon\<close> returns a list on every input:
  nothing it calls can make it throw. The list is empty whenever the collaborator's call
  throws (unreachable or failing), the reply has no first block or a first block that is
  not text, the text has no bracketed span, or the span is not JSON. A span that is JSON
  is taken as the list of conflicts whatever its elements are.
\<close>

theorem detection_degrades_to_empty:
  "(\<exists>conflicts. fst (validateAgainstCanon env lvl content canonContext) = Returns conflicts)
   \<and> (create env (validation_prompt env content canonContext) = Throws
       \<or> create env (validation_prompt env content canonContext) = Returns []
       \<or> create env (validation_prompt env content canonContext) = Returns (Other_block # others)
       \<or> create env (validation_prompt env content canonContext) = Returns (Text_block text # others)
          \<and> (match_array text = None
              \<or> (\<exists>jsonMatch. match_array text = Some jsonMatch \<and> parse env jsonMatch = None))
      \<longrightarrow> fst (validateAgainstCanon env lvl content canonContext) = Returns [])"
proof (intro conjI impI)
  show "\<exists>conflicts. fst (validateAgainstCanon env lvl content canonContext) = Returns conflicts"
    by (cases "validate_try env lvl content canonContext"; cases "fst (validate_try env lvl content canonContext)")
       (auto simp: validateAgainstCanon_def)
next
  assume "create env (validation_prompt env content canonContext) = Throws
       \<or> create env (validation_prompt env content canonContext) = Returns []
       \<or> create env (validation_prompt env content canonContext) = Returns (Other_block # others)
       \<or> create env (validation_prompt env content canonContext) = Returns (Text_block text # others)
          \<and> (match_array text = None
              \<or> (\<exists>jsonMatch. match_array text = Some jsonMatch \<and> parse env jsonMatch = None))"
  then have "fst (validate_try env lvl content canonContext) = Throws
           \<or> fst (validate_try env lvl content canonContext) = Returns []"
    by (auto simp: validate_try_def)
  then show "fst (validateAgainstCanon env lvl content canonContext) = Returns []"
    by (cases "validate_try env lvl content canonContext") (auto simp: validateAgainstCanon_def)
qed

theorem detection_degrades_to_empty_witness:
  "create (answering Throws) (validation_prompt (answering Throws) ''text'' empty_context) = Throws
   \<and> fst (validateAgainstCanon (answering Throws) Strict ''text'' empty_context) = Returns []
   \<and> fst (validateAgainstCanon (answering (Returns [])) Strict ''text'' empty_context) = Returns []
   \<and> fst (validateAgainstCanon (answering (Returns [Other_block])) Moderate ''text'' empty_context) = Returns []
   \<and> match_array ''no conflicts found'' = None
   \<and> fst (validateAgainstCanon (answering (Returns [Text_block ''no conflicts found''])) Strict
        ''text'' empty_context) = Returns []
   \<and> match_array ''see [note] and [other]'' = Some ''[note] and [other]''
   \<and> parse (answering (Returns [Text_block ''see [note] and [other]''])) ''[note] and [other]'' = None
   \<and> fst (validateAgainstCanon (answering (Returns [Text_block ''see [note] and [other]''])) Strict
        ''text'' empty_context) = Returns []"
proof -
  let ?e1 = "answering Throws"
  let ?e2 = "answering (Returns [Text_block ''see [note] and [other]''])"
  let ?e3 = "answering (Returns [])"
  let ?e4 = "answering (Returns [Other_block])"
  let ?e5 = "answering (Returns [Text_block ''no conflicts found''])"
  have h1: "create ?e1 (validation_prompt ?e1 ''text'' empty_context) = Throws"
    by (simp add: answering_def)
  have h2: "create ?e2 (validation_prompt ?e2 ''text'' empty_context)
      = Returns (Text_block ''see [note] and [other]'' # [])"
    by (simp add: answering_def)
  have h3: "match_array ''see [note] and [other]'' = Some ''[note] and [other]''"
    by (simp add: match_array_def)
  have h4: "parse ?e2 ''[note] and [other]'' = None"
    by (simp add: answering_def sample_parse_def sample_span_def)
  have h5: "create ?e3 (validation_prompt ?e3 ''text'' empty_context) = Returns []"
    by (simp add: answering_def)
  have h6: "create ?e4 (validation_prompt ?e4 ''text'' empty_context) = Returns (Other_block # [])"
    by (simp add: answering_def)
  have h7: "create ?e5 (validation_prompt ?e5 ''text'' empty_context)
      = Returns (Text_block ''no conflicts found'' # [])"
    by (simp add: answering_def)
  have h8: "match_array ''no conflicts found'' = None" by (simp add: match_array_def)
  from detection_degrades_to_empty [of ?e1 Strict "''text''" empty_context] h1
  have a: "fst (validateAgainstCanon ?e1 Strict ''text'' empty_context) = Returns []" by blast
  from detection_degrades_to_empty [of ?e2 Strict "''text''" empty_context "[]" "''see [note] and [other]''"]
    h2 h3 h4
  have b: "fst (validateAgainstCanon ?e2 Strict ''text'' empty_context) = Returns []" by blast
  from detection_degrades_to_empty [of ?e3 Strict "''text''" empty_context] h5
  have c: "fst (validateAgainstCanon ?e3 Strict ''text'' empty_context) = Returns []" by blast
  from detection_degrades_to_empty [of ?e4 Moderate "''text''" empty_context "[]"] h6
  have d: "fst (validateAgainstCanon ?e4 Moderate ''text'' empty_context) = Returns []" by blast
  from detection_degrades_to_empty [of ?e5 Strict "''text''" empty_context "[]" "''no conflicts found''"]
    h7 h8
  have e: "fst (validateAgainstCanon ?e5 Strict ''text'' empty_context) = Returns []" by blast
  from h1 h3 h4 h8 a b c d e show ?thesis by simp
qed

text \<open>
  A reply with no conflict list in it whose bracketed span is JSON all the same: under
  \<open>strict\<close> the parsed array comes back as the conflicts.
\<close>

theorem detection_unchecked_span_counterexample:
  "match_array ''No conflicts, see chapter [1]'' = Some ''[1]''
   \<and> parse (answering (Returns [Text_block ''No conflicts, see chapter [1]''])) ''[1]'' = Some [JNum 1]
   \<and> fst (validateAgainstCanon (answering (Returns [Text_block ''No conflicts, see chapter [1]'']))
          Strict ''Elena has blue eyes'' empty_context) = Returns [JNum 1]"
  by (simp add: validateAgainstCanon_def validate_try_def detector_defs)

subsection \<open>Creating an entry\<close>

lemma insert_entry_Inr:
  assumes "insert_entry db r = (Inr entry, db1)"
  shows "entry = r" and "db1 = db\<lparr>canon_entries := canon_entries db @ [r]\<rparr>"
    and "entry_violation db (canon_entries db) r = None"
  using assms by (auto simp: insert_entry_def split: option.splits)

lemma insert_entry_Inl: "insert_entry db r = (Inl e, db1) \<Longrightarrow> db1 = db"
  by (auto simp: insert_entry_def split: option.splits)

lemma entry_violation_fresh:
  "entry_violation db others r = None \<Longrightarrow> ce_id r \<notin> ce_id ` set others"
  by (auto simp: entry_violation_def split: if_splits)

lemma insert_row_other:
  "insert_row accepts db t r = (res, db') \<Longrightarrow>
   canon_entries db' = canon_entries db \<and> canon_versions db' = canon_versions db \<and>
   users db' = users db \<and> projects db' = projects db \<and> timelines db' = timelines db"
  by (auto simp: insert_row_def split: option.splits if_splits)

lemma createTypeSpecificRecord_other:
  "createTypeSpecificRecord accepts db k p c n dat ni = (res, db') \<Longrightarrow>
   canon_entries db' = canon_entries db \<and> canon_versions db' = canon_versions db \<and>
   users db' = users db \<and> projects db' = projects db \<and> timelines db' = timelines db"
  by (auto simp: createTypeSpecificRecord_def split: option.splits prod.splits sum.splits
      dest: insert_row_other)

lemma filter_fresh_id:
  "i \<notin> ce_id ` set es \<Longrightarrow> filter (\<lambda>e. ce_id e \<noteq> i) es = es"
  by (induction es) auto

text \<open>
  C10. When the row of \<^verbatim>\<open>canon_entries\<close> has been inserted and
  \<^verbatim>\<open>createTypeSpecificRecord\<close> then yields no identifier, \<^verbatim>\<open>createEntry\<close> fails, the
  table \<^verbatim>\<open>canon_entries\<close> is what it was before the call, and no row of the store
  refers to the identifier of the entry that was withdrawn.
\<close>

theorem createEntry_rollback:
  assumes "insert_entry db (new_entry_row slugify projectId entityType name description entityData newEntryId)
             = (Inr entry, db1)"
      and "\<not> truthy_str (fst (createTypeSpecificRecord accepts db1 entityType projectId newEntryId name
                                 entityData newRecordId))"
      and "createEntry slugify accepts db projectId entityType name description entityData newEntryId newRecordId
             = (r, db')"
  shows "r = Inl No_type_record
       \<and> canon_entries db' = canon_entries db
       \<and> newEntryId \<notin> ce_id ` set (canon_entries db')
       \<and> list_all (\<lambda>v. cv_canon_entry_id v \<noteq> newEntryId) (canon_versions db')
       \<and> list_all (\<lambda>row. str_col ''canon_entry_id'' row \<noteq> Some newEntryId) (entity_rows db' t)"
proof -
  let ?row = "new_entry_row slugify projectId entityType name description entityData newEntryId"
  have i: "ce_id ?row = newEntryId" by (simp add: new_entry_row_def)
  note ins = insert_entry_Inr [OF assms(1)]
  from ins(3) have fresh: "newEntryId \<notin> ce_id ` set (canon_entries db)"
    using entry_violation_fresh i by metis
  obtain entityId db2 where ts: "createTypeSpecificRecord accepts db1 entityType projectId newEntryId name
      entityData newRecordId = (entityId, db2)"
    by (cases "createTypeSpecificRecord accepts db1 entityType projectId newEntryId name entityData newRecordId")
  with assms(2) have none: "\<not> truthy_str entityId" by simp
  from ts have e2: "canon_entries db2 = canon_entries db @ [?row]"
    using createTypeSpecificRecord_other ins(2) by fastforce
  from assms(1,3) ins(1) i ts none
  have res: "r = Inl No_type_record" "db' = snd (delete_entry_row db2 newEntryId)"
    by (auto simp: createEntry_def)
  from e2 i have present: "newEntryId \<in> set (map ce_id (canon_entries db2))" by simp
  then have db': "db' = db2\<lparr>canon_entries := filter (\<lambda>e. ce_id e \<noteq> newEntryId) (canon_entries db2),
                      canon_versions := filter (\<lambda>v. cv_canon_entry_id v \<noteq> newEntryId) (canon_versions db2),
                      entity_rows := (\<lambda>t. filter (\<lambda>r. str_col ''canon_entry_id'' r \<noteq> Some newEntryId) (entity_rows db2 t))\<rparr>"
    unfolding res(2) by (simp add: delete_entry_row_def)
  from e2 fresh i have restored: "canon_entries db' = canon_entries db"
    unfolding db' by (simp add: filter_fresh_id)
  with fresh have gone: "newEntryId \<notin> ce_id ` set (canon_entries db')" by simp
  have vers: "list_all (\<lambda>v. cv_canon_entry_id v \<noteq> newEntryId) (canon_versions db')"
    unfolding db' by (simp add: list_all_iff)
  have rows: "list_all (\<lambda>row. str_col ''canon_entry_id'' row \<noteq> Some newEntryId) (entity_rows db' t)"
    unfolding db' by (simp add: list_all_iff)
  from res(1) restored gone vers rows show ?thesis by blast
qed

lemmas create_defs = createEntry_def new_entry_row_def insert_entry_def createTypeSpecificRecord_def
  type_specific_row_def insert_row_def with_defaults_def column_defaults_def delete_entry_row_def
  get_prop_def

theorem createEntry_rollback_witness:
  "fst (insert_entry sample_store
          (new_entry_row sample_slugify ''p1'' Character ''Kai'' None
             (JObj [(''eyeColor'', JStr ''blue'')]) ''e3''))
     = Inr (new_entry_row sample_slugify ''p1'' Character ''Kai'' None (JObj [(''eyeColor'', JStr ''blue'')]) ''e3'')
   \<and> \<not> truthy_str (fst (createTypeSpecificRecord sample_accepts
          (snd (insert_entry sample_store
             (new_entry_row sample_slugify ''p1'' Character ''Kai'' None
                (JObj [(''eyeColor'', JStr ''blue'')]) ''e3'')))
          Character ''p1'' ''e3'' ''Kai'' (JObj [(''eyeColor'', JStr ''blue'')]) ''c3''))
   \<and> fst (createEntry sample_slugify sample_accepts sample_store ''p1'' Character ''Kai'' None
          (JObj [(''eyeColor'', JStr ''blue'')]) ''e3'' ''c3'') = Inl No_type_record
   \<and> canon_entries (snd (createEntry sample_slugify sample_accepts sample_store ''p1'' Character ''Kai'' None
          (JObj [(''eyeColor'', JStr ''blue'')]) ''e3'' ''c3'')) = [elena, marcus]"
proof -
  let ?row = "new_entry_row sample_slugify ''p1'' Character ''Kai'' None (JObj [(''eyeColor'', JStr ''blue'')]) ''e3''"
  let ?C = "createEntry sample_slugify sample_accepts sample_store ''p1'' Character ''Kai'' None
          (JObj [(''eyeColor'', JStr ''blue'')]) ''e3'' ''c3''"
  have f: "fst (insert_entry sample_store ?row) = Inr ?row"
    by (simp add: insert_entry_def new_entry_row_def entry_violation_def slug_taken_def int4_def sample_defs)
  then have h1: "insert_entry sample_store ?row = (Inr ?row, snd (insert_entry sample_store ?row))"
    by (metis prod.collapse)
  have h2: "\<not> truthy_str (fst (createTypeSpecificRecord sample_accepts (snd (insert_entry sample_store ?row))
          Character ''p1'' ''e3'' ''Kai'' (JObj [(''eyeColor'', JStr ''blue'')]) ''c3''))"
    by (simp add: create_defs sample_defs update_defs)
  have h3: "?C = (fst ?C, snd ?C)" by simp
  note T = createEntry_rollback [OF h1 h2 h3]
  have es: "canon_entries sample_store = [elena, marcus]" by (simp add: sample_store_def)
  from T have a: "fst ?C = Inl No_type_record" by blast
  from T have b: "canon_entries (snd ?C) = [elena, marcus]" unfolding es by blast
  from f h2 a b show ?thesis by blast
qed

lemma map_of_obj_set: "map_of (obj_set k v a) k' = (if k' = k then Some v else map_of a k')"
  by (induction a) auto

lemma map_of_obj_merge_other:
  "k \<notin> fst ` set b \<Longrightarrow> map_of (obj_merge a b) k = map_of a k"
  unfolding obj_merge_def
proof (induction b arbitrary: a)
  case Nil
  then show ?case by simp
next
  case (Cons kv b)
  obtain k' v' where kv: "kv = (k', v')" by (cases kv)
  with Cons.prems have "k \<noteq> k'" "k \<notin> fst ` set b" by auto
  with Cons.IH [of "obj_set k' v' a"] kv show ?case by (simp add: map_of_obj_set)
qed

lemma type_specific_row_base:
  assumes "k \<notin> fst ` set (spread data)" and "k \<noteq> ''description''"
  shows "map_of (type_specific_row entityType projectId canonEntryId name data newId) k =
         map_of [(''id'', JStr newId), (''canon_entry_id'', JStr canonEntryId),
                 (''project_id'', JStr projectId), (''name'', JStr name)] k"
  using assms
  by (cases entityType) (simp_all add: type_specific_row_def map_of_obj_merge_other)

lemma type_specific_row_keys:
  assumes "list_all (\<lambda>k. k \<notin> fst ` set (spread data)) [''id'', ''canon_entry_id'', ''project_id'', ''name'']"
  shows "str_col ''id'' (type_specific_row entityType projectId canonEntryId name data newId) = Some newId"
    and "str_col ''canon_entry_id'' (type_specific_row entityType projectId canonEntryId name data newId) = Some canonEntryId"
    and "str_col ''project_id'' (type_specific_row entityType projectId canonEntryId name data newId) = Some projectId"
    and "str_col ''name'' (type_specific_row entityType projectId canonEntryId name data newId) = Some name"
    and "col ''id'' (type_specific_row entityType projectId canonEntryId name data newId) = JStr newId"
    and "col ''name'' (type_specific_row entityType projectId canonEntryId name data newId) = JStr name"
    and "\<not> null_col ''name'' (type_specific_row entityType projectId canonEntryId name data newId)"
  using assms by (simp_all add: str_col_def col_def null_col_def type_specific_row_base)

lemma map_of_with_defaults:
  "map_of r k = Some v \<Longrightarrow> map_of (with_defaults t r) k = Some v"
  by (simp add: with_defaults_def map_add_def)

lemma with_defaults_keys:
  assumes "map_of r k = Some v"
  shows "str_col k (with_defaults t r) = str_col k r" and "col k (with_defaults t r) = col k r"
  using assms by (simp_all add: str_col_def col_def map_of_with_defaults)

lemma type_specific_row_stored:
  assumes "list_all (\<lambda>k. k \<notin> fst ` set (spread data)) [''id'', ''canon_entry_id'', ''project_id'', ''name'']"
  shows "str_col ''canon_entry_id'' (with_defaults t (type_specific_row entityType projectId canonEntryId name data newId))
           = Some canonEntryId"
    and "str_col ''project_id'' (with_defaults t (type_specific_row entityType projectId canonEntryId name data newId))
           = Some projectId"
    and "col ''id'' (with_defaults t (type_specific_row entityType projectId canonEntryId name data newId))
           = JStr newId"
    and "col ''name'' (with_defaults t (type_specific_row entityType projectId canonEntryId name data newId))
           = JStr name"
proof -
  let ?tr = "type_specific_row entityType projectId canonEntryId name data newId"
  from assms have m: "map_of ?tr ''id'' = Some (JStr newId)"
      "map_of ?tr ''canon_entry_id'' = Some (JStr canonEntryId)"
      "map_of ?tr ''project_id'' = Some (JStr projectId)"
      "map_of ?tr ''name'' = Some (JStr name)"
    by (simp_all add: type_specific_row_base)
  note k = type_specific_row_keys [OF assms, of entityType projectId canonEntryId name newId]
  from with_defaults_keys(1) [OF m(2)] k(2)
  show "str_col ''canon_entry_id'' (with_defaults t ?tr) = Some canonEntryId" by simp
  from with_defaults_keys(1) [OF m(3)] k(3)
  show "str_col ''project_id'' (with_defaults t ?tr) = Some projectId" by simp
  from with_defaults_keys(2) [OF m(1)] k(5)
  show "col ''id'' (with_defaults t ?tr) = JStr newId" by simp
  from with_defaults_keys(2) [OF m(4)] k(6)
  show "col ''name'' (with_defaults t ?tr) = JStr name" by simp
qed

lemma slug_taken_iff:
  "slug_taken rows r \<longleftrightarrow>
   (\<exists>e \<in> set rows. ce_is_active e \<and> ce_project_id e = ce_project_id r \<and> ce_slug e = ce_slug r)"
  by (simp add: slug_taken_def list_ex_iff)

lemma createEntry_collision:
  assumes "newEntryId \<notin> ce_id ` set (canon_entries db)" and "projectId \<in> set (projects db)"
      and "\<exists>e \<in> set (canon_entries db). ce_is_active e \<and> ce_project_id e = projectId \<and> ce_slug e = slugify name"
  shows "createEntry slugify accepts db projectId entityType name description entityData newEntryId newRecordId
           = (Inl (Store_error Unique_violation), db)"
proof -
  let ?row = "new_entry_row slugify projectId entityType name description entityData newEntryId"
  from assms(3) have "slug_taken (canon_entries db) ?row"
    by (simp add: slug_taken_iff new_entry_row_def)
  with assms(1,2) have "entry_violation db (canon_entries db) ?row = Some Unique_violation"
    by (simp add: entry_violation_def new_entry_row_def)
  then show ?thesis by (simp add: createEntry_def insert_entry_def)
qed

lemma createEntry_created:
  assumes fresh: "newEntryId \<notin> ce_id ` set (canon_entries db)"
      and proj: "projectId \<in> set (projects db)"
      and free: "\<not> (\<exists>e \<in> set (canon_entries db). ce_is_active e \<and> ce_project_id e = projectId \<and> ce_slug e = slugify name)"
      and tab: "table_of entityType = Some t"
      and acc: "accepts t (type_specific_row entityType projectId newEntryId name entityData newRecordId)"
      and keys: "list_all (\<lambda>k. k \<notin> fst ` set (spread entityData)) [''id'', ''canon_entry_id'', ''project_id'', ''name'']"
      and rid: "Some newRecordId \<notin> set (map (str_col ''id'') (entity_rows db t))"
      and ne: "newRecordId \<noteq> []"
  shows "createEntry slugify accepts db projectId entityType name description entityData newEntryId newRecordId
           = (Inr (new_entry_row slugify projectId entityType name description entityData newEntryId, newRecordId),
              db\<lparr>canon_entries := canon_entries db @
                     [new_entry_row slugify projectId entityType name description entityData newEntryId],
                 entity_rows := (entity_rows db)(t := entity_rows db t @
                     [with_defaults t
                        (type_specific_row entityType projectId newEntryId name entityData newRecordId)]),
                 canon_versions := canon_versions db @
                     [\<lparr>cv_canon_entry_id = newEntryId, cv_version = 1, cv_name = name,
                       cv_description = str_or_null description, cv_data = entityData,
                       cv_changed_by = None, cv_change_reason = ''Created'',
                       cv_change_type = ''manual''\<rparr>]\<rparr>)"
proof -
  let ?row = "new_entry_row slugify projectId entityType name description entityData newEntryId"
  let ?tr = "type_specific_row entityType projectId newEntryId name entityData newRecordId"
  let ?db1 = "db\<lparr>canon_entries := canon_entries db @ [?row]\<rparr>"
  let ?db2 = "?db1\<lparr>entity_rows := (entity_rows ?db1)(t := entity_rows ?db1 t @ [with_defaults t ?tr])\<rparr>"
  from free have "\<not> slug_taken (canon_entries db) ?row"
    by (simp add: slug_taken_iff new_entry_row_def)
  with fresh proj have "entry_violation db (canon_entries db) ?row = None"
    by (simp add: entry_violation_def new_entry_row_def int4_def)
  then have ins: "insert_entry db ?row = (Inr ?row, ?db1)" by (simp add: insert_entry_def)
  note k = type_specific_row_keys [OF keys, of entityType projectId newEntryId name newRecordId]
  have i: "ce_id ?row = newEntryId" by (simp add: new_entry_row_def)
  from k(1-3,7) proj acc have "row_violation accepts ?db1 t ?tr = None"
    by (simp add: row_violation_def i)
  with rid k(1) have "insert_row accepts ?db1 t ?tr = (Inr (with_defaults t ?tr), ?db2)"
    by (simp add: insert_row_def)
  moreover have "map_of ?tr ''id'' = Some (JStr newRecordId)"
    using keys by (simp add: type_specific_row_base)
  then have "str_col ''id'' (with_defaults t ?tr) = Some newRecordId"
    using with_defaults_keys(1) k(1) by metis
  ultimately have ts0: "insert_row accepts ?db1 t ?tr = (Inr (with_defaults t ?tr), ?db2)"
    "str_col ''id'' (with_defaults t ?tr) = Some newRecordId" by simp_all
  with tab have ts: "createTypeSpecificRecord accepts ?db1 entityType projectId newEntryId name
      entityData newRecordId = (Some newRecordId, ?db2)"
    by (simp add: createTypeSpecificRecord_def)
  have cv: "createVersion ?db2 newEntryId 1 name (str_or_null description) entityData None ''Created''
      = ?db2\<lparr>canon_versions := canon_versions db @
                     [\<lparr>cv_canon_entry_id = newEntryId, cv_version = 1, cv_name = name,
                       cv_description = str_or_null description, cv_data = entityData,
                       cv_changed_by = None, cv_change_reason = ''Created'',
                       cv_change_type = ''manual''\<rparr>]\<rparr>"
    by (simp add: createVersion_def insert_version_def i int4_def)
  from ins ts ne cv i show ?thesis
    by (simp add: createEntry_def truthy_str_def)
qed

lemma created_visible:
  assumes tab: "table_of entityType = Some t"
      and keys: "list_all (\<lambda>k. k \<notin> fst ` set (spread entityData)) [''id'', ''canon_entry_id'', ''project_id'', ''name'']"
      and rows: "with_defaults t (type_specific_row entityType projectId newEntryId name entityData newRecordId)
                   \<in> set (entity_rows db' t)"
      and ents: "new_entry_row slugify projectId entityType name description entityData newEntryId
                   \<in> set (canon_entries db')"
  shows "\<exists>item \<in> set (characters (loadCanonContext db' projectId) @ locations (loadCanonContext db' projectId)
                      @ rules (loadCanonContext db' projectId) @ events (loadCanonContext db' projectId)
                      @ themes (loadCanonContext db' projectId)).
           cx_id item = JStr newRecordId \<and> cx_name item = JStr name \<and> \<not> cx_locked item"
proof -
  let ?row = "new_entry_row slugify projectId entityType name description entityData newEntryId"
  let ?tr = "with_defaults t (type_specific_row entityType projectId newEntryId name entityData newRecordId)"
  note k = type_specific_row_stored [OF keys, of t entityType projectId newEntryId name newRecordId]
  have r: "ce_id ?row = newEntryId" "ce_is_active ?row" "ce_lock_status ?row = Unlocked"
    by (simp_all add: new_entry_row_def)
  have item: "\<And>plain listed. cx_id (context_item plain listed (?tr, ?row)) = JStr newRecordId
      \<and> cx_name (context_item plain listed (?tr, ?row)) = JStr name
      \<and> \<not> cx_locked (context_item plain listed (?tr, ?row))"
    by (simp add: context_item_def k(3,4) r(3))
  have "(?tr, ?row) \<in> set (joined db' t projectId)"
    unfolding joined_iff using rows ents k(1,2) r(1,2) by simp
  then have listed: "\<And>plain listed. context_item plain listed (?tr, ?row)
      \<in> set (map (context_item plain listed) (joined db' t projectId))"
    by simp
  from tab consider "t = Canon_characters" | "t = Canon_locations" | "t = Canon_rules"
    | "t = Canon_events" | "t = Canon_themes"
    by (cases t) auto
  then show ?thesis
  proof cases
    case 1
    with listed [of "[''personality'', ''backstory'', ''relationships'']" "[]"]
    have "context_item [''personality'', ''backstory'', ''relationships''] [] (?tr, ?row)
        \<in> set (characters (loadCanonContext db' projectId))"
      by (simp add: loadCanonContext_def loadCharacters_def)
    with item show ?thesis by (metis UnCI set_append)
  next
    case 2
    with listed [of "[''atmosphere'']" "[]"]
    have "context_item [''atmosphere''] [] (?tr, ?row) \<in> set (locations (loadCanonContext db' projectId))"
      by (simp add: loadCanonContext_def loadLocations_def)
    with item show ?thesis by (metis UnCI set_append)
  next
    case 3
    with listed [of "[''priority'']" "[''constraints'']"]
    have "context_item [''priority''] [''constraints''] (?tr, ?row) \<in> set (rules (loadCanonContext db' projectId))"
      by (simp add: loadCanonContext_def loadRules_def)
    with item show ?thesis by (metis UnCI set_append)
  next
    case 4
    with listed [of "[''story_date'']" "[''consequences'']"]
    have "context_item [''story_date''] [''consequences''] (?tr, ?row) \<in> set (events (loadCanonContext db' projectId))"
      by (simp add: loadCanonContext_def loadEvents_def)
    with item show ?thesis by (metis UnCI set_append)
  next
    case 5
    with listed [of "[''how_expressed'']" "[]"]
    have "context_item [''how_expressed''] [] (?tr, ?row) \<in> set (themes (loadCanonContext db' projectId))"
      by (simp add: loadCanonContext_def loadThemes_def)
    with item show ?thesis by (metis UnCI set_append)
  qed
qed

text \<open>
  C9, as the code has it. For a fresh identifier and an existing project,
  \<^verbatim>\<open>createEntry\<close> fails at the insert and leaves the store as it was when the slug of the
  name is held by an active entry of the project. When the slug is free, the kind has a
  type-specific table, that table accepts the record (whose key columns the payload does
  not override) and the record's identifier is new and not empty, it returns the entry at
  version 1, appends the entry and an initial version with reason \<open>Created\<close>, and the
  next context load of the project shows the record, unlocked.
\<close>

theorem createEntry_outcomes:
  assumes "newEntryId \<notin> ce_id ` set (canon_entries db)"
      and "projectId \<in> set (projects db)"
      and "createEntry slugify accepts db projectId entityType name description entityData newEntryId newRecordId
             = (r, db')"
  shows "((\<exists>e \<in> set (canon_entries db). ce_is_active e \<and> ce_project_id e = projectId \<and> ce_slug e = slugify name)
            \<longrightarrow> r = Inl (Store_error Unique_violation) \<and> db' = db)
       \<and> (\<not> (\<exists>e \<in> set (canon_entries db). ce_is_active e \<and> ce_project_id e = projectId \<and> ce_slug e = slugify name)
           \<and> table_of entityType = Some t
           \<and> accepts t (type_specific_row entityType projectId newEntryId name entityData newRecordId)
           \<and> list_all (\<lambda>k. k \<notin> fst ` set (spread entityData)) [''id'', ''canon_entry_id'', ''project_id'', ''name'']
           \<and> Some newRecordId \<notin> set (map (str_col ''id'') (entity_rows db t))
           \<and> newRecordId \<noteq> []
            \<longrightarrow> r = Inr (new_entry_row slugify projectId entityType name description entityData newEntryId, newRecordId)
              \<and> ce_version (new_entry_row slugify projectId entityType name description entityData newEntryId) = 1
              \<and> canon_entries db' = canon_entries db @
                   [new_entry_row slugify projectId entityType name description entityData newEntryId]
              \<and> canon_versions db' = canon_versions db @
                   [\<lparr>cv_canon_entry_id = newEntryId, cv_version = 1, cv_name = name,
                     cv_description = str_or_null description, cv_data = entityData,
                     cv_changed_by = None, cv_change_reason = ''Created'', cv_change_type = ''manual''\<rparr>]
              \<and> (\<exists>item \<in> set (characters (loadCanonContext db' projectId) @ locations (loadCanonContext db' projectId)
                      @ rules (loadCanonContext db' projectId) @ events (loadCanonContext db' projectId)
                      @ themes (loadCanonContext db' projectId)).
                   cx_id item = JStr newRecordId \<and> cx_name item = JStr name \<and> \<not> cx_locked item))"
proof (intro conjI impI)
  assume "\<exists>e \<in> set (canon_entries db). ce_is_active e \<and> ce_project_id e = projectId \<and> ce_slug e = slugify name"
  from createEntry_collision [where slugify = slugify and name = name, OF assms(1,2) this] assms(3)
  show "r = Inl (Store_error Unique_violation)" "db' = db" by simp_all
next
  let ?row = "new_entry_row slugify projectId entityType name description entityData newEntryId"
  let ?tr = "type_specific_row entityType projectId newEntryId name entityData newRecordId"
  assume h: "\<not> (\<exists>e \<in> set (canon_entries db). ce_is_active e \<and> ce_project_id e = projectId \<and> ce_slug e = slugify name)
           \<and> table_of entityType = Some t
           \<and> accepts t ?tr
           \<and> list_all (\<lambda>k. k \<notin> fst ` set (spread entityData)) [''id'', ''canon_entry_id'', ''project_id'', ''name'']
           \<and> Some newRecordId \<notin> set (map (str_col ''id'') (entity_rows db t))
           \<and> newRecordId \<noteq> []"
  then have c: "createEntry slugify accepts db projectId entityType name description entityData newEntryId newRecordId
           = (Inr (?row, newRecordId),
              db\<lparr>canon_entries := canon_entries db @ [?row],
                 entity_rows := (entity_rows db)(t := entity_rows db t @ [with_defaults t ?tr]),
                 canon_versions := canon_versions db @
                     [\<lparr>cv_canon_entry_id = newEntryId, cv_version = 1, cv_name = name,
                       cv_description = str_or_null description, cv_data = entityData,
                       cv_changed_by = None, cv_change_reason = ''Created'',
                       cv_change_type = ''manual''\<rparr>]\<rparr>)"
    using createEntry_created [where slugify = slugify and name = name, OF assms(1,2)] by blast
  with assms(3) have r: "r = Inr (?row, newRecordId)"
    and db': "db' = db\<lparr>canon_entries := canon_entries db @ [?row],
                 entity_rows := (entity_rows db)(t := entity_rows db t @ [with_defaults t ?tr]),
                 canon_versions := canon_versions db @
                     [\<lparr>cv_canon_entry_id = newEntryId, cv_version = 1, cv_name = name,
                       cv_description = str_or_null description, cv_data = entityData,
                       cv_changed_by = None, cv_change_reason = ''Created'',
                       cv_change_type = ''manual''\<rparr>]\<rparr>"
    by simp_all
  from r show "r = Inr (?row, newRecordId)" .
  show "ce_version ?row = 1" by (simp add: new_entry_row_def)
  show "canon_entries db' = canon_entries db @ [?row]" unfolding db' by simp
  show "canon_versions db' = canon_versions db @
                   [\<lparr>cv_canon_entry_id = newEntryId, cv_version = 1, cv_name = name,
                     cv_description = str_or_null description, cv_data = entityData,
                     cv_changed_by = None, cv_change_reason = ''Created'', cv_change_type = ''manual''\<rparr>]"
    unfolding db' by simp
  have rows: "with_defaults t ?tr \<in> set (entity_rows db' t)" unfolding db' by simp
  have ents: "?row \<in> set (canon_entries db')" unfolding db' by simp
  from h have tab: "table_of entityType = Some t"
    and keys: "list_all (\<lambda>k. k \<notin> fst ` set (spread entityData)) [''id'', ''canon_entry_id'', ''project_id'', ''name'']"
    by blast+
  from created_visible [OF tab keys rows ents]
  show "\<exists>item \<in> set (characters (loadCanonContext db' projectId) @ locations (loadCanonContext db' projectId)
                      @ rules (loadCanonContext db' projectId) @ events (loadCanonContext db' projectId)
                      @ themes (loadCanonContext db' projectId)).
                   cx_id item = JStr newRecordId \<and> cx_name item = JStr name \<and> \<not> cx_locked item" .
qed

theorem createEntry_rejected_record_counterexample:
  "map ce_slug (canon_entries sample_store) = [''elena'', ''marcus'']
   \<and> sample_slugify ''Kai'' = ''Kai''
   \<and> fst (createEntry sample_slugify sample_accepts sample_store ''p1'' Character ''Kai'' None
        (JObj [(''eyeColor'', JStr ''blue'')]) ''e3'' ''c3'') = Inl No_type_record
   \<and> canon_entries (snd (createEntry sample_slugify sample_accepts sample_store ''p1'' Character ''Kai'' None
        (JObj [(''eyeColor'', JStr ''blue'')]) ''e3'' ''c3'')) = canon_entries sample_store
   \<and> canon_versions (snd (createEntry sample_slugify sample_accepts sample_store ''p1'' Character ''Kai'' None
        (JObj [(''eyeColor'', JStr ''blue'')]) ''e3'' ''c3'')) = canon_versions sample_store"
  by (simp add: create_defs sample_defs update_defs)

theorem createEntry_outcomes_witness:
  "''e3'' \<notin> ce_id ` set (canon_entries sample_store)
   \<and> ''p1'' \<in> set (projects sample_store)
   \<and> elena \<in> set (canon_entries sample_store) \<and> ce_is_active elena \<and> ce_project_id elena = ''p1''
   \<and> ce_slug elena = sample_slugify ''elena''
   \<and> createEntry sample_slugify sample_accepts sample_store ''p1'' Character ''elena'' None (JObj []) ''e3'' ''c3''
       = (Inl (Store_error Unique_violation), sample_store)
   \<and> table_of Character = Some Canon_characters
   \<and> sample_accepts Canon_characters
        (type_specific_row Character ''p1'' ''e3'' ''Kai'' (JObj [(''personality'', JStr ''calm'')]) ''c3'')
   \<and> fst (createEntry sample_slugify sample_accepts sample_store ''p1'' Character ''Kai'' None
        (JObj [(''personality'', JStr ''calm'')]) ''e3'' ''c3'')
       = Inr (new_entry_row sample_slugify ''p1'' Character ''Kai'' None
                (JObj [(''personality'', JStr ''calm'')]) ''e3'', ''c3'')
   \<and> canon_versions (snd (createEntry sample_slugify sample_accepts sample_store ''p1'' Character ''Kai'' None
        (JObj [(''personality'', JStr ''calm'')]) ''e3'' ''c3''))
       = canon_versions sample_store @
           [\<lparr>cv_canon_entry_id = ''e3'', cv_version = 1, cv_name = ''Kai'', cv_description = None,
             cv_data = JObj [(''personality'', JStr ''calm'')], cv_changed_by = None,
             cv_change_reason = ''Created'', cv_change_type = ''manual''\<rparr>]
   \<and> list_ex (\<lambda>item. cx_id item = JStr ''c3'' \<and> cx_name item = JStr ''Kai'' \<and> \<not> cx_locked item)
        (characters (loadCanonContext
           (snd (createEntry sample_slugify sample_accepts sample_store ''p1'' Character ''Kai'' None
              (JObj [(''personality'', JStr ''calm'')]) ''e3'' ''c3'')) ''p1''))"
proof -
  let ?dat = "JObj [(''personality'', JStr ''calm'')]"
  let ?C = "createEntry sample_slugify sample_accepts sample_store ''p1'' Character ''Kai'' None ?dat ''e3'' ''c3''"
  let ?D = "createEntry sample_slugify sample_accepts sample_store ''p1'' Character ''elena'' None (JObj []) ''e3'' ''c3''"
  let ?ctx = "loadCanonContext (snd ?C) ''p1''"
  have h1: "''e3'' \<notin> ce_id ` set (canon_entries sample_store)" by (simp add: sample_defs)
  have h2: "''p1'' \<in> set (projects sample_store)" by (simp add: sample_defs)
  have el: "elena \<in> set (canon_entries sample_store)" "ce_is_active elena" "ce_project_id elena = ''p1''"
      "ce_slug elena = sample_slugify ''elena''"
    by (simp_all add: sample_defs)
  then have hit: "\<exists>e \<in> set (canon_entries sample_store).
      ce_is_active e \<and> ce_project_id e = ''p1'' \<and> ce_slug e = sample_slugify ''elena''"
    by blast
  have free: "\<not> (\<exists>e \<in> set (canon_entries sample_store).
      ce_is_active e \<and> ce_project_id e = ''p1'' \<and> ce_slug e = sample_slugify ''Kai'')"
    by (simp add: sample_defs)
  have tab: "table_of Character = Some Canon_characters" by (simp add: table_of_def)
  have acc: "sample_accepts Canon_characters (type_specific_row Character ''p1'' ''e3'' ''Kai'' ?dat ''c3'')"
    by (simp add: type_specific_row_def obj_merge_def sample_accepts_def sample_columns_def)
  have keys: "list_all (\<lambda>k. k \<notin> fst ` set (spread ?dat)) [''id'', ''canon_entry_id'', ''project_id'', ''name'']"
    by simp
  have rid: "Some ''c3'' \<notin> set (map (str_col ''id'') (entity_rows sample_store Canon_characters))"
    by (simp add: sample_defs str_col_def)
  have ne: "''c3'' \<noteq> []" by simp
  have d: "?D = (fst ?D, snd ?D)" and c: "?C = (fst ?C, snd ?C)" by simp_all
  note TD = createEntry_outcomes [OF h1 h2 d, THEN conjunct1]
  note TC = createEntry_outcomes [OF h1 h2 c, THEN conjunct2, of Canon_characters]
  from TD hit have a: "?D = (Inl (Store_error Unique_violation), sample_store)"
    by (metis prod.collapse)
  from TC free tab acc keys rid ne
  have b: "fst ?C = Inr (new_entry_row sample_slugify ''p1'' Character ''Kai'' None ?dat ''e3'', ''c3'')"
    and v: "canon_versions (snd ?C) = canon_versions sample_store @
           [\<lparr>cv_canon_entry_id = ''e3'', cv_version = 1, cv_name = ''Kai'', cv_description = str_or_null None,
             cv_data = ?dat, cv_changed_by = None,
             cv_change_reason = ''Created'', cv_change_type = ''manual''\<rparr>]"
    and ex: "\<exists>item \<in> set (characters ?ctx @ locations ?ctx @ rules ?ctx @ events ?ctx @ themes ?ctx).
                   cx_id item = JStr ''c3'' \<and> cx_name item = JStr ''Kai'' \<and> \<not> cx_locked item"
    by blast+
  have others: "locations ?ctx = []" "rules ?ctx = []" "events ?ctx = []" "themes ?ctx = []"
    by (simp_all add: create_defs sample_defs update_defs loadCanonContext_def loadLocations_def
        loadRules_def loadEvents_def loadThemes_def joined_def)
  from ex have vis: "list_ex (\<lambda>item. cx_id item = JStr ''c3'' \<and> cx_name item = JStr ''Kai'' \<and> \<not> cx_locked item)
        (characters ?ctx)"
    unfolding others list_ex_iff by simp
  from v have v': "canon_versions (snd ?C) = canon_versions sample_store @
           [\<lparr>cv_canon_entry_id = ''e3'', cv_version = 1, cv_name = ''Kai'', cv_description = None,
             cv_data = ?dat, cv_changed_by = None,
             cv_change_reason = ''Created'', cv_change_type = ''manual''\<rparr>]"
    by (simp add: str_or_null_def truthy_str_def)
  from h1 h2 el a tab acc b v' vis show ?thesis by blast
qed

end
